theory Spec2Isabelle
  imports Main "HOL-Library.Word"
begin

unbundle bit_operations_syntax

section \<open>Macros: the key-with-modifiers view (libghostcat.c)\<close>

text \<open>
  \<^verbatim>\<open>unsigned int\<close> is a 32-bit word. The key codes come from the kernel header
  \<^verbatim>\<open>linux/input-event-codes.h\<close>; the modifier masks from the private header
  (\<^verbatim>\<open>#define MODIFIER_LEFTCTRL (1 << 0)\<close> up to \<^verbatim>\<open>MODIFIER_RIGHTMETA (1 << 7)\<close>).
\<close>

type_synonym u32 = "32 word"

definition EINVAL :: int where "EINVAL = 22"
definition EXIT_SUCCESS :: int where "EXIT_SUCCESS = 0"
definition EXIT_FAILURE :: int where "EXIT_FAILURE = 1"

definition KEY_RESERVED :: u32 where "KEY_RESERVED = 0"
definition KEY_LEFTCTRL :: u32 where "KEY_LEFTCTRL = 29"
definition KEY_LEFTSHIFT :: u32 where "KEY_LEFTSHIFT = 42"
definition KEY_RIGHTSHIFT :: u32 where "KEY_RIGHTSHIFT = 54"
definition KEY_LEFTALT :: u32 where "KEY_LEFTALT = 56"
definition KEY_RIGHTCTRL :: u32 where "KEY_RIGHTCTRL = 97"
definition KEY_RIGHTALT :: u32 where "KEY_RIGHTALT = 100"
definition KEY_LEFTMETA :: u32 where "KEY_LEFTMETA = 125"
definition KEY_RIGHTMETA :: u32 where "KEY_RIGHTMETA = 126"

definition MODIFIER_LEFTCTRL :: u32 where "MODIFIER_LEFTCTRL = push_bit 0 1"
definition MODIFIER_LEFTSHIFT :: u32 where "MODIFIER_LEFTSHIFT = push_bit 1 1"
definition MODIFIER_LEFTALT :: u32 where "MODIFIER_LEFTALT = push_bit 2 1"
definition MODIFIER_LEFTMETA :: u32 where "MODIFIER_LEFTMETA = push_bit 3 1"
definition MODIFIER_RIGHTCTRL :: u32 where "MODIFIER_RIGHTCTRL = push_bit 4 1"
definition MODIFIER_RIGHTSHIFT :: u32 where "MODIFIER_RIGHTSHIFT = push_bit 5 1"
definition MODIFIER_RIGHTALT :: u32 where "MODIFIER_RIGHTALT = push_bit 6 1"
definition MODIFIER_RIGHTMETA :: u32 where "MODIFIER_RIGHTMETA = push_bit 7 1"

datatype ghostcat_error_code =
    GHOSTCAT_SUCCESS
  | GHOSTCAT_ERROR_DEVICE
  | GHOSTCAT_ERROR_CAPABILITY
  | GHOSTCAT_ERROR_VALUE
  | GHOSTCAT_ERROR_SYSTEM
  | GHOSTCAT_ERROR_IMPLEMENTATION

text \<open>The numeric values of \<^verbatim>\<open>enum ghostcat_error_code\<close>.\<close>

fun error_code_int :: "ghostcat_error_code \<Rightarrow> int" where
  "error_code_int GHOSTCAT_SUCCESS = 0"
| "error_code_int GHOSTCAT_ERROR_DEVICE = - 1000"
| "error_code_int GHOSTCAT_ERROR_CAPABILITY = - 1001"
| "error_code_int GHOSTCAT_ERROR_VALUE = - 1002"
| "error_code_int GHOSTCAT_ERROR_SYSTEM = - 1003"
| "error_code_int GHOSTCAT_ERROR_IMPLEMENTATION = - 1004"

datatype ghostcat_macro_event_type =
    GHOSTCAT_MACRO_EVENT_INVALID
  | GHOSTCAT_MACRO_EVENT_NONE
  | GHOSTCAT_MACRO_EVENT_KEY_PRESSED
  | GHOSTCAT_MACRO_EVENT_KEY_RELEASED
  | GHOSTCAT_MACRO_EVENT_WAIT

text \<open>
  \<^verbatim>\<open>struct ghostcat_macro_event\<close>: the union of \<^verbatim>\<open>key\<close> and \<^verbatim>\<open>timeout\<close> is one
  32-bit cell, \<open>ev_key\<close>.
\<close>

record ghostcat_macro_event =
  ev_type :: ghostcat_macro_event_type
  ev_key :: u32

definition MAX_MACRO_EVENTS :: nat where "MAX_MACRO_EVENTS = 256"

text \<open>
  \<^verbatim>\<open>struct ghostcat_macro\<close>: the array \<^verbatim>\<open>events[MAX_MACRO_EVENTS]\<close> is a list of
  256 cells; a loop \<^verbatim>\<open>for (i = 0; i < MAX_MACRO_EVENTS; i++)\<close> walks
  \<open>take MAX_MACRO_EVENTS\<close> of it.
\<close>

record ghostcat_macro =
  m_name :: "string option"
  m_group :: "string option"
  events :: "ghostcat_macro_event list"

definition zero_event :: ghostcat_macro_event where
  "zero_event = \<lparr>ev_type = GHOSTCAT_MACRO_EVENT_NONE, ev_key = 0\<rparr>"

text \<open>\<^verbatim>\<open>ghostcat_button_macro_new\<close>: a zeroed macro with the given name.\<close>

definition ghostcat_button_macro_new :: "string \<Rightarrow> ghostcat_macro" where
  "ghostcat_button_macro_new name =
     \<lparr>m_name = Some name, m_group = None, events = replicate MAX_MACRO_EVENTS zero_event\<rparr>"

definition ghostcat_button_macro_set_event ::
  "ghostcat_macro \<Rightarrow> nat \<Rightarrow> ghostcat_macro_event_type \<Rightarrow> u32 \<Rightarrow> ghostcat_error_code \<times> ghostcat_macro"
where
  "ghostcat_button_macro_set_event m index type data =
     (if index \<ge> MAX_MACRO_EVENTS then (GHOSTCAT_ERROR_VALUE, m)
      else case type of
        GHOSTCAT_MACRO_EVENT_KEY_PRESSED \<Rightarrow>
          (GHOSTCAT_SUCCESS, m\<lparr>events := (events m)[index := \<lparr>ev_type = type, ev_key = data\<rparr>]\<rparr>)
      | GHOSTCAT_MACRO_EVENT_KEY_RELEASED \<Rightarrow>
          (GHOSTCAT_SUCCESS, m\<lparr>events := (events m)[index := \<lparr>ev_type = type, ev_key = data\<rparr>]\<rparr>)
      | GHOSTCAT_MACRO_EVENT_WAIT \<Rightarrow>
          (GHOSTCAT_SUCCESS, m\<lparr>events := (events m)[index := \<lparr>ev_type = type, ev_key = data\<rparr>]\<rparr>)
      | GHOSTCAT_MACRO_EVENT_NONE \<Rightarrow>
          (GHOSTCAT_SUCCESS,
           m\<lparr>events := (events m)[index := (events m ! index)\<lparr>ev_type := type\<rparr>]\<rparr>)
      | GHOSTCAT_MACRO_EVENT_INVALID \<Rightarrow> (GHOSTCAT_ERROR_VALUE, m))"

datatype ghostcat_button_action_type =
    GHOSTCAT_BUTTON_ACTION_TYPE_NONE
  | GHOSTCAT_BUTTON_ACTION_TYPE_BUTTON
  | GHOSTCAT_BUTTON_ACTION_TYPE_SPECIAL
  | GHOSTCAT_BUTTON_ACTION_TYPE_KEY
  | GHOSTCAT_BUTTON_ACTION_TYPE_MACRO
  | GHOSTCAT_BUTTON_ACTION_TYPE_UNKNOWN

text \<open>
  \<^verbatim>\<open>struct ghostcat_button_action\<close>: the macro pointer is \<open>None\<close> when it is NULL.
\<close>

record ghostcat_button_action =
  a_type :: ghostcat_button_action_type
  a_value :: u32
  a_macro :: "ghostcat_macro option"

record ghostcat_button =
  b_index :: nat
  b_action :: ghostcat_button_action
  b_action_caps :: u32
  b_dirty :: bool

text \<open>
  \<^verbatim>\<open>ghostcat_button_copy_macro\<close>: the button's macro is allocated (or cleared), the
  action type becomes MACRO, and events, name and group are copied.
\<close>

definition ghostcat_button_copy_macro :: "ghostcat_button \<Rightarrow> ghostcat_macro \<Rightarrow> ghostcat_button" where
  "ghostcat_button_copy_macro button macro =
     button\<lparr>b_action := (b_action button)
       \<lparr>a_type := GHOSTCAT_BUTTON_ACTION_TYPE_MACRO,
        a_macro := Some \<lparr>m_name = m_name macro, m_group = m_group macro,
                         events = events macro\<rparr>\<rparr>\<rparr>"

record ghostcat_modifier_mapping_t =
  modifier_mask :: u32
  mkey :: u32

definition ghostcat_modifier_mapping :: "ghostcat_modifier_mapping_t list" where
  "ghostcat_modifier_mapping =
     [\<lparr>modifier_mask = MODIFIER_LEFTCTRL, mkey = KEY_LEFTCTRL\<rparr>,
      \<lparr>modifier_mask = MODIFIER_LEFTSHIFT, mkey = KEY_LEFTSHIFT\<rparr>,
      \<lparr>modifier_mask = MODIFIER_LEFTALT, mkey = KEY_LEFTALT\<rparr>,
      \<lparr>modifier_mask = MODIFIER_LEFTMETA, mkey = KEY_LEFTMETA\<rparr>,
      \<lparr>modifier_mask = MODIFIER_RIGHTCTRL, mkey = KEY_RIGHTCTRL\<rparr>,
      \<lparr>modifier_mask = MODIFIER_RIGHTSHIFT, mkey = KEY_RIGHTSHIFT\<rparr>,
      \<lparr>modifier_mask = MODIFIER_RIGHTALT, mkey = KEY_RIGHTALT\<rparr>,
      \<lparr>modifier_mask = MODIFIER_RIGHTMETA, mkey = KEY_RIGHTMETA\<rparr>]"

text \<open>
  One \<^verbatim>\<open>ARRAY_FOR_EACH(ghostcat_modifier_mapping, mapping)\<close> loop of the encoder: for
  every table entry whose mask is set in \<open>modifiers\<close>, an event of the given type
  is stored at index \<open>i\<close> and \<open>i\<close> is incremented. The result of
  \<^verbatim>\<open>ghostcat_button_macro_set_event\<close> is ignored, as in the source.
\<close>

fun set_modifier_events ::
  "ghostcat_macro_event_type \<Rightarrow> u32 \<Rightarrow> ghostcat_modifier_mapping_t list \<Rightarrow>
   ghostcat_macro \<times> nat \<Rightarrow> ghostcat_macro \<times> nat"
where
  "set_modifier_events type modifiers [] (macro, i) = (macro, i)"
| "set_modifier_events type modifiers (mapping # rest) (macro, i) =
     (if modifiers AND modifier_mask mapping \<noteq> 0
      then set_modifier_events type modifiers rest
             (snd (ghostcat_button_macro_set_event macro i type (mkey mapping)), Suc i)
      else set_modifier_events type modifiers rest (macro, i))"

definition ghostcat_button_macro_new_from_keycode ::
  "ghostcat_button \<Rightarrow> u32 \<Rightarrow> u32 \<Rightarrow> int \<times> ghostcat_button"
where
  "ghostcat_button_macro_new_from_keycode button key modifiers =
     (let macro = ghostcat_button_macro_new ''key'';
          (macro, i) = set_modifier_events GHOSTCAT_MACRO_EVENT_KEY_PRESSED modifiers
                         ghostcat_modifier_mapping (macro, 0);
          macro = snd (ghostcat_button_macro_set_event macro i
                         GHOSTCAT_MACRO_EVENT_KEY_PRESSED key);
          i = Suc i;
          macro = snd (ghostcat_button_macro_set_event macro i
                         GHOSTCAT_MACRO_EVENT_KEY_RELEASED key);
          i = Suc i;
          (macro, i) = set_modifier_events GHOSTCAT_MACRO_EVENT_KEY_RELEASED modifiers
                         ghostcat_modifier_mapping (macro, i)
      in (0, ghostcat_button_copy_macro button macro))"

text \<open>
  Modelled from the spec: \<^verbatim>\<open>ghostcat_key_is_modifier\<close> is declared in a utility
  header that is not part of the sources at hand. The specification calls a modifier a
  "recognised keycode in the eight-entry modifier table".
\<close>

definition ghostcat_key_is_modifier :: "u32 \<Rightarrow> bool" where
  "ghostcat_key_is_modifier key_code = (key_code \<in> set (map mkey ghostcat_modifier_mapping))"

text \<open>The loop of \<^verbatim>\<open>ghostcat_action_macro_num_keys\<close>, with \<open>count\<close> threaded.\<close>

fun macro_num_keys_loop :: "ghostcat_macro_event list \<Rightarrow> int \<Rightarrow> int" where
  "macro_num_keys_loop [] count = count"
| "macro_num_keys_loop (event # rest) count =
     (if ev_type event = GHOSTCAT_MACRO_EVENT_NONE \<or> ev_type event = GHOSTCAT_MACRO_EVENT_INVALID
      then count
      else if ghostcat_key_is_modifier (ev_key event)
      then macro_num_keys_loop rest count
      else if ev_type event = GHOSTCAT_MACRO_EVENT_KEY_PRESSED
      then macro_num_keys_loop rest (count + 1)
      else macro_num_keys_loop rest count)"

definition ghostcat_action_macro_num_keys :: "ghostcat_macro \<Rightarrow> int" where
  "ghostcat_action_macro_num_keys macro =
     macro_num_keys_loop (take MAX_MACRO_EVENTS (events macro)) 0"

text \<open>
  The loop of \<^verbatim>\<open>ghostcat_action_is_single_modifier_key\<close>, with the two counters
  threaded.
\<close>

fun single_modifier_loop :: "ghostcat_macro_event list \<Rightarrow> int \<times> int \<Rightarrow> int \<times> int" where
  "single_modifier_loop [] (modifier_key_count, action_key_count) =
     (modifier_key_count, action_key_count)"
| "single_modifier_loop (event # rest) (modifier_key_count, action_key_count) =
     (if ev_type event = GHOSTCAT_MACRO_EVENT_NONE \<or> ev_type event = GHOSTCAT_MACRO_EVENT_INVALID
      then (modifier_key_count, action_key_count)
      else single_modifier_loop rest
        (if ghostcat_key_is_modifier (ev_key event) \<and>
            ev_type event = GHOSTCAT_MACRO_EVENT_KEY_PRESSED
         then modifier_key_count + 1 else modifier_key_count,
         if \<not> ghostcat_key_is_modifier (ev_key event) \<and>
            ev_type event = GHOSTCAT_MACRO_EVENT_KEY_PRESSED
         then action_key_count + 1 else action_key_count))"

definition ghostcat_action_is_single_modifier_key :: "ghostcat_macro \<Rightarrow> bool" where
  "ghostcat_action_is_single_modifier_key macro =
     (case single_modifier_loop (take MAX_MACRO_EVENTS (events macro)) (0, 0) of
        (modifier_key_count, action_key_count) \<Rightarrow>
          modifier_key_count = 1 \<and> action_key_count = 0)"

text \<open>
  The eight \<^verbatim>\<open>case KEY_x:\<close> labels of the two inner switches of the decoder: the mask
  that belongs to a modifier key code, \<open>None\<close> for the \<^verbatim>\<open>default:\<close> label.
\<close>

definition switch_modifier :: "u32 \<Rightarrow> u32 option" where
  "switch_modifier k =
     (if k = KEY_LEFTCTRL then Some MODIFIER_LEFTCTRL
      else if k = KEY_LEFTSHIFT then Some MODIFIER_LEFTSHIFT
      else if k = KEY_LEFTALT then Some MODIFIER_LEFTALT
      else if k = KEY_LEFTMETA then Some MODIFIER_LEFTMETA
      else if k = KEY_RIGHTCTRL then Some MODIFIER_RIGHTCTRL
      else if k = KEY_RIGHTSHIFT then Some MODIFIER_RIGHTSHIFT
      else if k = KEY_RIGHTALT then Some MODIFIER_RIGHTALT
      else if k = KEY_RIGHTMETA then Some MODIFIER_RIGHTMETA
      else None)"

text \<open>
  The main loop of \<^verbatim>\<open>ghostcat_action_keycode_from_macro\<close>. The result is the return
  value and, when the function wrote them, the contents of \<^verbatim>\<open>*key_out\<close> and
  \<^verbatim>\<open>*modifiers_out\<close>. A released modifier falls through to the WAIT label, which
  breaks out of the switch, so the loop goes on.
\<close>

fun keycode_loop ::
  "ghostcat_macro_event list \<Rightarrow> u32 \<Rightarrow> u32 \<Rightarrow> int \<times> (u32 \<times> u32) option"
where
  "keycode_loop [] key modifiers = (- EINVAL, None)"
| "keycode_loop (event # rest) key modifiers =
     (case ev_type event of
        GHOSTCAT_MACRO_EVENT_INVALID \<Rightarrow> (- EINVAL, None)
      | GHOSTCAT_MACRO_EVENT_NONE \<Rightarrow> (0, None)
      | GHOSTCAT_MACRO_EVENT_KEY_PRESSED \<Rightarrow>
          (case switch_modifier (ev_key event) of
             Some bits \<Rightarrow> keycode_loop rest key (modifiers OR bits)
           | None \<Rightarrow>
               if key \<noteq> KEY_RESERVED then (- EINVAL, None)
               else keycode_loop rest (ev_key event) modifiers)
      | GHOSTCAT_MACRO_EVENT_KEY_RELEASED \<Rightarrow>
          (case switch_modifier (ev_key event) of
             Some bits \<Rightarrow> keycode_loop rest key (modifiers AND NOT bits)
           | None \<Rightarrow>
               if ev_key event \<noteq> key then (- EINVAL, None)
               else (1, Some (key, modifiers)))
      | GHOSTCAT_MACRO_EVENT_WAIT \<Rightarrow> keycode_loop rest key modifiers)"

definition ghostcat_action_keycode_from_macro ::
  "ghostcat_button_action \<Rightarrow> int \<times> (u32 \<times> u32) option"
where
  "ghostcat_action_keycode_from_macro action =
     (case a_macro action of
        None \<Rightarrow> (- EINVAL, None)
      | Some macro \<Rightarrow>
          if a_type action \<noteq> GHOSTCAT_BUTTON_ACTION_TYPE_MACRO then (- EINVAL, None)
          else if ev_type (hd (events macro)) = GHOSTCAT_MACRO_EVENT_NONE then (- EINVAL, None)
          else if ghostcat_action_is_single_modifier_key macro
          then (1, Some (ev_key (hd (events macro)), 0))
          else if ghostcat_action_macro_num_keys macro \<noteq> 1 then (- EINVAL, None)
          else keycode_loop (take MAX_MACRO_EVENTS (events macro)) KEY_RESERVED 0)"

section \<open>The object graph: device, profiles, resolutions, buttons, leds\<close>

text \<open>
  The intrusive lists of the source are HOL lists in list order. A pointer to a child is
  the position of the child in its parent's list; the functions below take the parent
  and that position. Reference counts, user data and the fields no function below reads
  are left out.
\<close>

record ghostcat_resolution =
  r_index :: nat
  dpi_x :: u32
  dpi_y :: u32
  r_is_active :: bool
  r_is_default :: bool
  r_is_disabled :: bool
  r_is_dpi_shift_target :: bool
  r_dirty :: bool
  r_capabilities :: u32

record ghostcat_led =
  l_index :: nat
  l_brightness :: u32
  l_dirty :: bool

definition GHOSTCAT_PROFILE_CAP_NONE :: nat where "GHOSTCAT_PROFILE_CAP_NONE = 0"
definition GHOSTCAT_PROFILE_CAP_SET_DEFAULT :: nat where "GHOSTCAT_PROFILE_CAP_SET_DEFAULT = 101"
definition GHOSTCAT_PROFILE_CAP_DISABLE :: nat where "GHOSTCAT_PROFILE_CAP_DISABLE = 102"
definition GHOSTCAT_PROFILE_CAP_WRITE_ONLY :: nat where "GHOSTCAT_PROFILE_CAP_WRITE_ONLY = 103"
definition MAX_CAP :: nat where "MAX_CAP = 1000"

text \<open>
  \<^verbatim>\<open>struct ghostcat_profile\<close>. The capability bit array is the set of the bits that
  are set.
\<close>

record ghostcat_profile =
  p_index :: nat
  buttons :: "ghostcat_button list"
  resolutions :: "ghostcat_resolution list"
  leds :: "ghostcat_led list"
  hz :: u32
  rate_dirty :: bool
  angle_snapping :: int
  angle_snapping_dirty :: bool
  debounce :: int
  debounce_dirty :: bool
  num_resolutions :: nat
  p_is_active :: bool
  is_active_dirty :: bool
  is_enabled :: bool
  p_dirty :: bool
  p_capabilities :: "nat set"

text \<open>
  \<^verbatim>\<open>struct ghostcat_device\<close>, without the pointer to its driver: the callbacks of a
  driver take the device, so \<^verbatim>\<open>device->driver\<close> is passed beside the device to the
  functions that read it.
\<close>

record ghostcat_device =
  num_profiles :: nat
  profiles :: "ghostcat_profile list"
  num_buttons :: nat
  num_leds :: nat

text \<open>
  \<^verbatim>\<open>struct ghostcat_driver\<close>. The bodies of the callbacks are vendor code. A callback
  gets the device and may write to it: it is a function from the device to its return code
  and the device it leaves. \<open>None\<close> is the NULL function pointer.
\<close>

record ghostcat_driver =
  drv_name :: string
  commit :: "(ghostcat_device \<Rightarrow> int \<times> ghostcat_device) option"
  set_active_profile :: "(ghostcat_device \<Rightarrow> nat \<Rightarrow> int \<times> ghostcat_device) option"
  refresh_active_resolution :: "(ghostcat_device \<Rightarrow> int \<times> ghostcat_device) option"

text \<open>
  \<^verbatim>\<open>ghostcat_profile_has_capability\<close> calls \<^verbatim>\<open>abort()\<close> for the capability NONE and
  for one beyond \<^verbatim>\<open>MAX_CAP\<close>: the result \<open>None\<close>.
\<close>

definition ghostcat_profile_has_capability :: "ghostcat_profile \<Rightarrow> nat \<Rightarrow> bool option" where
  "ghostcat_profile_has_capability profile cap =
     (if cap = GHOSTCAT_PROFILE_CAP_NONE \<or> cap \<ge> MAX_CAP then None
      else Some (cap \<in> p_capabilities profile))"

definition ghostcat_profile_set_enabled ::
  "ghostcat_profile \<Rightarrow> bool \<Rightarrow> (ghostcat_error_code \<times> ghostcat_profile) option"
where
  "ghostcat_profile_set_enabled profile enabled =
     (case ghostcat_profile_has_capability profile GHOSTCAT_PROFILE_CAP_DISABLE of
        None \<Rightarrow> None
      | Some has \<Rightarrow>
          if \<not> has then Some (GHOSTCAT_ERROR_CAPABILITY, profile)
          else if p_is_active profile \<and> \<not> enabled then Some (GHOSTCAT_ERROR_VALUE, profile)
          else Some (GHOSTCAT_SUCCESS, profile\<lparr>is_enabled := enabled, p_dirty := True\<rparr>))"

text \<open>
  \<^verbatim>\<open>ghostcat_profile_set_active\<close>; the profile is \<open>profiles device ! i\<close>.
\<close>

definition ghostcat_profile_set_active ::
  "ghostcat_device \<Rightarrow> nat \<Rightarrow> ghostcat_error_code \<times> ghostcat_device"
where
  "ghostcat_profile_set_active device i =
     (if \<not> is_enabled (profiles device ! i) then (GHOSTCAT_ERROR_VALUE, device)
      else if num_profiles device = 1 then (GHOSTCAT_SUCCESS, device)
      else
        let ps = map (\<lambda>p. if p_is_active p
                           then p\<lparr>p_is_active := False, is_active_dirty := True, p_dirty := True\<rparr>
                           else p) (profiles device);
            ps = ps[i := (ps ! i)\<lparr>p_is_active := True, is_active_dirty := True, p_dirty := True\<rparr>]
        in (GHOSTCAT_SUCCESS, device\<lparr>profiles := ps\<rparr>))"

definition ghostcat_profile_set_report_rate ::
  "ghostcat_profile \<Rightarrow> u32 \<Rightarrow> ghostcat_error_code \<times> ghostcat_profile"
where
  "ghostcat_profile_set_report_rate profile rate =
     (if hz profile \<noteq> rate
      then (GHOSTCAT_SUCCESS, profile\<lparr>hz := rate, p_dirty := True, rate_dirty := True\<rparr>)
      else (GHOSTCAT_SUCCESS, profile))"

subsection \<open>The three exclusive status bits of a resolution\<close>

text \<open>
  The resolution is \<open>resolutions profile ! i\<close>. The error message that the source logs
  for a disabled resolution is not part of the state.
\<close>

definition ghostcat_resolution_set_active ::
  "ghostcat_profile \<Rightarrow> nat \<Rightarrow> ghostcat_error_code \<times> ghostcat_profile"
where
  "ghostcat_resolution_set_active profile i =
     (if r_is_disabled (resolutions profile ! i) then (GHOSTCAT_ERROR_VALUE, profile)
      else
        let rs = map (\<lambda>res. res\<lparr>r_is_active := False\<rparr>) (resolutions profile);
            rs = rs[i := (rs ! i)\<lparr>r_is_active := True, r_dirty := True\<rparr>]
        in (GHOSTCAT_SUCCESS, profile\<lparr>resolutions := rs, p_dirty := True\<rparr>))"

text \<open>
  One pass of the loop "unset the default on the other resolutions", at position \<open>j\<close>.
  The source sets \<^verbatim>\<open>resolution->dirty\<close>, the flag of the target, inside the loop.
\<close>

definition unset_default_step :: "nat \<Rightarrow> nat \<Rightarrow> ghostcat_profile \<Rightarrow> ghostcat_profile" where
  "unset_default_step i j profile =
     (if j = i \<or> \<not> r_is_default (resolutions profile ! j) then profile
      else
        let rs = resolutions profile;
            rs = rs[j := (rs ! j)\<lparr>r_is_default := False\<rparr>];
            rs = rs[i := (rs ! i)\<lparr>r_dirty := True\<rparr>]
        in profile\<lparr>resolutions := rs, p_dirty := True\<rparr>)"

definition ghostcat_resolution_set_default ::
  "ghostcat_profile \<Rightarrow> nat \<Rightarrow> ghostcat_error_code \<times> ghostcat_profile"
where
  "ghostcat_resolution_set_default profile i =
     (if r_is_disabled (resolutions profile ! i) then (GHOSTCAT_ERROR_VALUE, profile)
      else
        let profile = fold (unset_default_step i) [0..<length (resolutions profile)] profile;
            profile =
              (if \<not> r_is_default (resolutions profile ! i)
               then profile\<lparr>resolutions := (resolutions profile)
                              [i := (resolutions profile ! i)\<lparr>r_is_default := True, r_dirty := True\<rparr>],
                            p_dirty := True\<rparr>
               else profile)
        in (GHOSTCAT_SUCCESS, profile))"

text \<open>
  One pass of the loop "unset the dpi_shift_target on the other resolutions"; here the
  source sets \<^verbatim>\<open>other->dirty\<close>.
\<close>

definition unset_dpi_shift_target_step :: "nat \<Rightarrow> nat \<Rightarrow> ghostcat_profile \<Rightarrow> ghostcat_profile" where
  "unset_dpi_shift_target_step i j profile =
     (if j = i \<or> \<not> r_is_dpi_shift_target (resolutions profile ! j) then profile
      else
        let rs = resolutions profile;
            rs = rs[j := (rs ! j)\<lparr>r_is_dpi_shift_target := False, r_dirty := True\<rparr>]
        in profile\<lparr>resolutions := rs, p_dirty := True\<rparr>)"

definition ghostcat_resolution_set_dpi_shift_target ::
  "ghostcat_profile \<Rightarrow> nat \<Rightarrow> ghostcat_error_code \<times> ghostcat_profile"
where
  "ghostcat_resolution_set_dpi_shift_target profile i =
     (if r_is_disabled (resolutions profile ! i) then (GHOSTCAT_ERROR_VALUE, profile)
      else
        let profile = fold (unset_dpi_shift_target_step i)
                        [0..<length (resolutions profile)] profile;
            profile =
              (if \<not> r_is_dpi_shift_target (resolutions profile ! i)
               then profile\<lparr>resolutions := (resolutions profile)
                              [i := (resolutions profile ! i)
                                      \<lparr>r_is_dpi_shift_target := True, r_dirty := True\<rparr>],
                            p_dirty := True\<rparr>
               else profile)
        in (GHOSTCAT_SUCCESS, profile))"

subsection \<open>Commit\<close>

text \<open>The flags that the commit loop clears before it looks at \<^verbatim>\<open>is_active_dirty\<close>.\<close>

definition clear_dirty :: "ghostcat_profile \<Rightarrow> ghostcat_profile" where
  "clear_dirty profile =
     profile\<lparr>p_dirty := False,
             angle_snapping_dirty := False,
             debounce_dirty := False,
             rate_dirty := False,
             buttons := map (\<lambda>button. button\<lparr>b_dirty := False\<rparr>) (buttons profile),
             leds := map (\<lambda>led. led\<lparr>l_dirty := False\<rparr>) (leds profile),
             resolutions := map (\<lambda>resolution. resolution\<lparr>r_dirty := False\<rparr>)
                              (resolutions profile)\<rparr>"

text \<open>
  The body of the loop over the profiles of \<^verbatim>\<open>ghostcat_device_commit\<close>, for the
  profile at position \<open>k\<close>. The flags are read from the device as it is when the loop gets
  to the profile, and the \<^verbatim>\<open>set_active_profile\<close> callback gets that device. The first
  component is the error code of an early return, which leaves the profile with
  \<^verbatim>\<open>is_active_dirty\<close> as it was.
\<close>

definition commit_profile ::
  "ghostcat_driver \<Rightarrow> nat \<Rightarrow> ghostcat_device \<Rightarrow> ghostcat_error_code option \<times> ghostcat_device"
where
  "commit_profile drv k device =
     (let device = device\<lparr>profiles := (profiles device)[k := clear_dirty (profiles device ! k)]\<rparr>;
          profile = profiles device ! k
      in if is_active_dirty profile \<and> p_is_active profile
         then (case set_active_profile drv of
                 None \<Rightarrow> (Some GHOSTCAT_ERROR_IMPLEMENTATION, device)
               | Some callback \<Rightarrow>
                   (case callback device (p_index profile) of
                      (rc, device) \<Rightarrow>
                        if rc \<noteq> 0 then (Some GHOSTCAT_ERROR_DEVICE, device)
                        else (None,
                              device\<lparr>profiles := (profiles device)
                                [k := (profiles device ! k)\<lparr>is_active_dirty := False\<rparr>]\<rparr>)))
         else (None,
               device\<lparr>profiles := (profiles device)
                 [k := (profiles device ! k)\<lparr>is_active_dirty := False\<rparr>]\<rparr>))"

text \<open>
  The loop, as a walk over the positions of the list of profiles. After an early return the
  profiles at the later positions are untouched.
\<close>

fun commit_profiles ::
  "ghostcat_driver \<Rightarrow> nat list \<Rightarrow> ghostcat_device \<Rightarrow> ghostcat_error_code \<times> ghostcat_device"
where
  "commit_profiles drv [] device = (GHOSTCAT_SUCCESS, device)"
| "commit_profiles drv (k # ks) device =
     (case commit_profile drv k device of
        (Some err, device') \<Rightarrow> (err, device')
      | (None, device') \<Rightarrow> commit_profiles drv ks device')"

text \<open>
  \<^verbatim>\<open>ghostcat_device_commit\<close>; the first argument is \<^verbatim>\<open>device->driver\<close>. The source
  dereferences it without a check: a device without a driver has no result (\<open>None\<close>). The
  loop runs on the device that the driver's commit callback left.
\<close>

definition ghostcat_device_commit ::
  "ghostcat_driver option \<Rightarrow> ghostcat_device \<Rightarrow> (ghostcat_error_code \<times> ghostcat_device) option"
where
  "ghostcat_device_commit driver device =
     (case driver of
        None \<Rightarrow> None
      | Some drv \<Rightarrow>
          (case commit drv of
             None \<Rightarrow> Some (GHOSTCAT_ERROR_CAPABILITY, device)
           | Some callback \<Rightarrow>
               (case callback device of
                  (rc, device) \<Rightarrow>
                    if rc \<noteq> 0 then Some (GHOSTCAT_ERROR_DEVICE, device)
                    else Some (commit_profiles drv [0..<length (profiles device)] device))))"


text \<open>Every dirty flag of a profile and of its children is clear.\<close>

definition profile_clean :: "ghostcat_profile \<Rightarrow> bool" where
  "profile_clean profile =
     (\<not> p_dirty profile \<and> \<not> rate_dirty profile \<and> \<not> angle_snapping_dirty profile \<and>
      \<not> debounce_dirty profile \<and> \<not> is_active_dirty profile \<and>
      list_all (\<lambda>button. \<not> b_dirty button) (buttons profile) \<and>
      list_all (\<lambda>led. \<not> l_dirty led) (leds profile) \<and>
      list_all (\<lambda>resolution. \<not> r_dirty resolution) (resolutions profile))"

text \<open>A profile after a commit that went through: every flag that the loop clears is clear.\<close>

definition committed :: "ghostcat_profile \<Rightarrow> ghostcat_profile" where
  "committed profile = (clear_dirty profile)\<lparr>is_active_dirty := False\<rparr>"

section \<open>The daemon (ghostcatd)\<close>

text \<open>
  What the daemon sends on the bus is a trace of signals. The bus handle \<^verbatim>\<open>sd_bus *\<close>
  is the function that gives the return code of each emission.
\<close>

datatype bus_signal =
    Properties_changed string string "string list"
  | Child_resync string

type_synonym sd_bus = "bus_signal \<Rightarrow> int"

definition GHOSTCATD_NAME_ROOT :: string where
  "GHOSTCATD_NAME_ROOT = ''org.freedesktop.ratbag1''"

text \<open>
  \<^verbatim>\<open>struct ghostcatd_profile\<close>. The library profile it points to is held by value,
  and the daemon objects of the children are known by their object paths.
\<close>

record ghostcatd_profile =
  lib_profile :: ghostcat_profile
  pd_index :: nat
  pd_path :: string
  pd_resolutions :: "string list"
  pd_buttons :: "string list"
  pd_leds :: "string list"


definition sd_bus_emit_properties_changed ::
  "sd_bus \<Rightarrow> string \<Rightarrow> string \<Rightarrow> string list \<Rightarrow> int \<times> bus_signal list"
where
  "sd_bus_emit_properties_changed bus path interface names =
     (bus (Properties_changed path interface names), [Properties_changed path interface names])"

text \<open>The result of \<^verbatim>\<open>sd_bus_message_read\<close>: the value read, or a negative return code.\<close>

datatype 'a sd_bus_message = Read_ok 'a | Read_fail int

definition ghostcatd_profile_notify_dirty :: "sd_bus \<Rightarrow> ghostcatd_profile \<Rightarrow> int \<times> bus_signal list" where
  "ghostcatd_profile_notify_dirty bus profile =
     (0, snd (sd_bus_emit_properties_changed bus (pd_path profile)
                (GHOSTCATD_NAME_ROOT @ ''.Profile'') [''IsDirty'']))"

text \<open>
  The property setter of \<^verbatim>\<open>ReportRate\<close>: return code, the profile afterwards and the
  signals sent.
\<close>

definition ghostcatd_profile_set_report_rate ::
  "sd_bus \<Rightarrow> u32 sd_bus_message \<Rightarrow> ghostcatd_profile \<Rightarrow> int \<times> ghostcatd_profile \<times> bus_signal list"
where
  "ghostcatd_profile_set_report_rate bus m profile =
     (case m of
        Read_fail r \<Rightarrow> (r, profile, [])
      | Read_ok rate \<Rightarrow>
          let rate = (if rate < 125 then 125 else if rate > 8000 then 8000 else rate);
              (r, lib) = ghostcat_profile_set_report_rate (lib_profile profile) rate;
              profile = profile\<lparr>lib_profile := lib\<rparr>
          in if error_code_int r = 0
             then (0, profile,
                   snd (sd_bus_emit_properties_changed bus (pd_path profile)
                          (GHOSTCATD_NAME_ROOT @ ''.Profile'') [''ReportRate''])
                   @ snd (ghostcatd_profile_notify_dirty bus profile))
             else (0, profile, []))"







subsection \<open>The resync signals in the words of the specification\<close>





subsection \<open>The command line (ghostcatd.c, main)\<close>

datatype log_level_t = LL_QUIET | LL_INFO | LL_VERBOSE | LL_RAW

datatype console_output =
    Stdout string
  | Stderr string

definition EEXIST :: int where "EEXIST = 17"

text \<open>
  What \<^verbatim>\<open>main\<close> reads from outside: the program name, the version string, and the
  results of installing the bus policy, of \<^verbatim>\<open>ghostcatd_new\<close> and of
  \<^verbatim>\<open>ghostcatd_run\<close>; \<open>strerror\<close> is the text that \<^verbatim>\<open>%m\<close> prints for an errno.
\<close>

record main_env =
  program_invocation_short_name :: string
  GHOSTCAT_VERSION :: string
  install_ghostcatd_devel_dbus_policy :: bool
  ghostcatd_new :: int
  ghostcatd_run :: int
  strerror :: "int \<Rightarrow> string"

definition log_error :: "main_env \<Rightarrow> string \<Rightarrow> console_output list" where
  "log_error env msg = [Stderr (program_invocation_short_name env @ '' error: ''), Stderr msg]"

text \<open>The label \<^verbatim>\<open>exit:\<close> of \<^verbatim>\<open>main\<close>, reached with the value of \<^verbatim>\<open>r\<close>.\<close>

definition main_exit :: "main_env \<Rightarrow> int \<Rightarrow> console_output list \<times> int" where
  "main_exit env r =
     (if r < 0
      then (if r = - EEXIST
            then (log_error env
                    (''Bus name is taken, another instance of ghostcatd is already running.''
                     @ [CHR 0x0A]), EXIT_FAILURE)
            else (log_error env
                    (''Failed to start ghostcatd: '' @ strerror env (- r) @ [CHR 0x0A]),
                  EXIT_FAILURE))
      else ([], EXIT_SUCCESS))"

text \<open>
  \<^verbatim>\<open>main\<close>: the log level chosen, what is printed, and the exit status of the
  process. \<open>argv\<close> holds the program name at position 0.
\<close>

definition ghostcatd_main :: "string list \<Rightarrow> main_env \<Rightarrow> log_level_t \<times> console_output list \<times> int" where
  "ghostcatd_main argv env =
     (let rest = (\<lambda>log_level.
            if \<not> install_ghostcatd_devel_dbus_policy env then (log_level, main_exit env 0)
            else if ghostcatd_new env < 0 then (log_level, main_exit env (ghostcatd_new env))
            else (log_level, main_exit env (ghostcatd_run env)))
      in if length argv > 1
         then (if argv ! 1 = ''--version''
               then (LL_INFO, [Stdout (GHOSTCAT_VERSION env @ [CHR 0x0A])], 0)
               else if argv ! 1 = ''--quiet'' then rest LL_QUIET
               else if argv ! 1 = ''--verbose'' \<or> argv ! 1 = ''--verbose=raw'' then rest LL_RAW
               else if argv ! 1 = ''--verbose=debug'' then rest LL_VERBOSE
               else
                 (case main_exit env (- EINVAL) of
                    (out, status) \<Rightarrow>
                      (LL_INFO,
                       Stderr (''Usage: '' @ program_invocation_short_name env
                               @ '' [--version | --quiet | --verbose[=debug]]'' @ [CHR 0x0A])
                       # out, status)))
         else rest LL_INFO)"

definition exit_status :: "log_level_t \<times> console_output list \<times> int \<Rightarrow> int" where
  "exit_status result = snd (snd result)"

definition printed :: "log_level_t \<times> console_output list \<times> int \<Rightarrow> console_output list" where
  "printed result = fst (snd result)"

section \<open>Auxiliary notions for the proofs\<close>

definition mk_event :: "ghostcat_macro_event_type \<Rightarrow> u32 \<Rightarrow> ghostcat_macro_event" where
  "mk_event t k = \<lparr>ev_type = t, ev_key = k\<rparr>"

text \<open>The table entries whose mask is set in \<open>modifiers\<close>, in table order.\<close>

definition selected :: "u32 \<Rightarrow> ghostcat_modifier_mapping_t list \<Rightarrow> ghostcat_modifier_mapping_t list" where
  "selected modifiers tbl = filter (\<lambda>mp. modifiers AND modifier_mask mp \<noteq> 0) tbl"

definition example_button :: ghostcat_button where
  "example_button =
     \<lparr>b_index = 0,
      b_action = \<lparr>a_type = GHOSTCAT_BUTTON_ACTION_TYPE_NONE, a_value = 0, a_macro = None\<rparr>,
      b_action_caps = 0, b_dirty = False\<rparr>"

definition lone_ctrl_action :: ghostcat_button_action where
  "lone_ctrl_action =
     \<lparr>a_type = GHOSTCAT_BUTTON_ACTION_TYPE_MACRO, a_value = 0,
      a_macro = Some \<lparr>m_name = None, m_group = None,
        events = \<lparr>ev_type = GHOSTCAT_MACRO_EVENT_KEY_PRESSED, ev_key = KEY_LEFTCTRL\<rparr>
                 # zero_event # replicate 254 zero_event\<rparr>\<rparr>"

text \<open>
  The positions of the resolutions of a profile on which a status bit is set.
\<close>

definition holders :: "(ghostcat_resolution \<Rightarrow> bool) \<Rightarrow> ghostcat_profile \<Rightarrow> nat list" where
  "holders flag profile =
     filter (\<lambda>j. flag (resolutions profile ! j)) [0..<length (resolutions profile)]"


text \<open>The device has an active profile that is enabled.\<close>

definition active_profile_enabled :: "ghostcat_device \<Rightarrow> bool" where
  "active_profile_enabled device =
     list_ex (\<lambda>profile. p_is_active profile \<and> is_enabled profile) (profiles device)"

subsection \<open>Concrete objects\<close>

definition example_resolution :: "nat \<Rightarrow> ghostcat_resolution" where
  "example_resolution n =
     \<lparr>r_index = n, dpi_x = 800, dpi_y = 800, r_is_active = False, r_is_default = False,
      r_is_disabled = False, r_is_dpi_shift_target = False, r_dirty = False,
      r_capabilities = 0\<rparr>"

definition example_profile :: ghostcat_profile where
  "example_profile =
     \<lparr>p_index = 0,
      buttons = [example_button],
      resolutions =
        [(example_resolution 0)\<lparr>r_is_active := True, r_is_default := True,
                                 r_is_dpi_shift_target := True\<rparr>,
         example_resolution 1,
         (example_resolution 2)\<lparr>r_is_disabled := True\<rparr>],
      leds = [\<lparr>l_index = 0, l_brightness = 255, l_dirty = False\<rparr>],
      hz = 1000, rate_dirty = False,
      angle_snapping = - 1, angle_snapping_dirty = False,
      debounce = - 1, debounce_dirty = False,
      num_resolutions = 3,
      p_is_active = True, is_active_dirty = False, is_enabled = True, p_dirty = False,
      p_capabilities = {GHOSTCAT_PROFILE_CAP_DISABLE}\<rparr>"

text \<open>
  A driver in the manner of the Mars Gaming driver: its commit callback rewrites
  \<^verbatim>\<open>is_active\<close> of every profile from the profile that the hardware reports as current
  (here profile 0) and returns 0; \<^verbatim>\<open>set_active_profile\<close> writes to the wire only.
\<close>

definition example_driver :: ghostcat_driver where
  "example_driver =
     \<lparr>drv_name = ''test_driver'',
      commit = Some (\<lambda>device.
        (0, device\<lparr>profiles := map (\<lambda>profile. profile\<lparr>p_is_active := (p_index profile = 0)\<rparr>)
                                  (profiles device)\<rparr>)),
      set_active_profile = Some (\<lambda>device index. (0, device)),
      refresh_active_resolution = Some (\<lambda>device. (1, device))\<rparr>"

definition single_profile_device :: ghostcat_device where
  "single_profile_device =
     \<lparr>num_profiles = 1, profiles = [example_profile], num_buttons = 1, num_leds = 1\<rparr>"


definition example_env :: main_env where
  "example_env =
     \<lparr>program_invocation_short_name = ''ghostcatd'', GHOSTCAT_VERSION = ''0.18'',
      install_ghostcatd_devel_dbus_policy = True, ghostcatd_new = 0, ghostcatd_run = 0,
      strerror = (\<lambda>errnum. ''Invalid argument'')\<rparr>"

text \<open>A driver whose commit succeeds and whose \<^verbatim>\<open>set_active_profile\<close> fails.\<close>

definition refusing_driver :: ghostcat_driver where
  "refusing_driver =
     \<lparr>drv_name = ''test_driver'',
      commit = Some (\<lambda>device. (0, device)),
      set_active_profile = Some (\<lambda>device index. (- 1, device)),
      refresh_active_resolution = None\<rparr>"

text \<open>A driver whose commit fails.\<close>

definition failing_driver :: ghostcat_driver where
  "failing_driver =
     \<lparr>drv_name = ''test_driver'',
      commit = Some (\<lambda>device. (- 5, device)),
      set_active_profile = None,
      refresh_active_resolution = None\<rparr>"

text \<open>
  A device after \<^verbatim>\<open>ghostcat_profile_set_active\<close> on profile 1 and a change of the
  report rate and of a resolution of profile 0: profile 0 has lost \<^verbatim>\<open>is_active\<close>,
  profile 1 has it, both have \<^verbatim>\<open>is_active_dirty\<close>.
\<close>

definition switched_device :: ghostcat_device where
  "switched_device =
     \<lparr>num_profiles = 2,
      profiles =
        [example_profile
           \<lparr>resolutions := [(example_resolution 0)\<lparr>r_is_active := True, r_dirty := True\<rparr>,
                             example_resolution 1],
            p_is_active := False, is_active_dirty := True, p_dirty := True, rate_dirty := True\<rparr>,
         example_profile\<lparr>p_index := 1, is_active_dirty := True, p_dirty := True\<rparr>],
      num_buttons = 1, num_leds = 1\<rparr>"





section \<open>The macro encoder and decoder\<close>

lemmas key_defs =
  KEY_RESERVED_def KEY_LEFTCTRL_def KEY_LEFTSHIFT_def KEY_RIGHTSHIFT_def KEY_LEFTALT_def
  KEY_RIGHTCTRL_def KEY_RIGHTALT_def KEY_LEFTMETA_def KEY_RIGHTMETA_def

lemmas modifier_defs =
  MODIFIER_LEFTCTRL_def MODIFIER_LEFTSHIFT_def MODIFIER_LEFTALT_def MODIFIER_LEFTMETA_def
  MODIFIER_RIGHTCTRL_def MODIFIER_RIGHTSHIFT_def MODIFIER_RIGHTALT_def MODIFIER_RIGHTMETA_def

subsection \<open>What the encoder writes\<close>

lemma set_event_key:
  "i < MAX_MACRO_EVENTS \<Longrightarrow> t = GHOSTCAT_MACRO_EVENT_KEY_PRESSED \<or> t = GHOSTCAT_MACRO_EVENT_KEY_RELEASED \<Longrightarrow>
   snd (ghostcat_button_macro_set_event m i t k) = m\<lparr>events := (events m)[i := mk_event t k]\<rparr>"
  by (auto simp: ghostcat_button_macro_set_event_def mk_event_def)

lemma set_modifier_events_char:
  assumes "t = GHOSTCAT_MACRO_EVENT_KEY_PRESSED \<or> t = GHOSTCAT_MACRO_EVENT_KEY_RELEASED"
  shows "i + length tbl \<le> MAX_MACRO_EVENTS \<Longrightarrow> length (events m) = MAX_MACRO_EVENTS \<Longrightarrow>
         set_modifier_events t mods tbl (m, i) =
           (m\<lparr>events := take i (events m) @ map (\<lambda>mp. mk_event t (mkey mp)) (selected mods tbl)
                  @ drop (i + length (selected mods tbl)) (events m)\<rparr>,
            i + length (selected mods tbl))"
proof (induction tbl arbitrary: m i)
  case Nil
  then show ?case by (simp add: selected_def)
next
  case (Cons mp tbl)
  show ?case
  proof (cases "mods AND modifier_mask mp \<noteq> 0")
    case False
    then show ?thesis using Cons.IH[of i m] Cons.prems by (simp add: selected_def)
  next
    case True
    have i: "i < MAX_MACRO_EVENTS" using Cons.prems by simp
    let ?m' = "m\<lparr>events := (events m)[i := mk_event t (mkey mp)]\<rparr>"
    have len: "length (events ?m') = MAX_MACRO_EVENTS" using Cons.prems by simp
    have "set_modifier_events t mods (mp # tbl) (m, i) = set_modifier_events t mods tbl (?m', Suc i)"
      using True set_event_key[OF i assms] by simp
    also have "\<dots> = (?m'\<lparr>events := take (Suc i) (events ?m') @ map (\<lambda>mp. mk_event t (mkey mp)) (selected mods tbl)
                  @ drop (Suc i + length (selected mods tbl)) (events ?m')\<rparr>,
            Suc i + length (selected mods tbl))"
      using Cons.IH[of "Suc i" ?m'] Cons.prems len by simp
    finally show ?thesis using True i Cons.prems
      by (simp add: selected_def take_Suc_conv_app_nth)
  qed
qed

lemma table_switch:
  "mp \<in> set ghostcat_modifier_mapping \<Longrightarrow> switch_modifier (mkey mp) = Some (modifier_mask mp)"
  by (auto simp: ghostcat_modifier_mapping_def switch_modifier_def key_defs)

lemma table_is_modifier:
  "mp \<in> set ghostcat_modifier_mapping \<Longrightarrow> ghostcat_key_is_modifier (mkey mp)"
  by (simp add: ghostcat_key_is_modifier_def)

lemma not_modifier_switch:
  "\<not> ghostcat_key_is_modifier k \<Longrightarrow> switch_modifier k = None"
  by (simp add: ghostcat_key_is_modifier_def ghostcat_modifier_mapping_def switch_modifier_def)

lemma keycode_loop_presses:
  "set sel \<subseteq> set ghostcat_modifier_mapping \<Longrightarrow>
   keycode_loop (map (\<lambda>mp. mk_event GHOSTCAT_MACRO_EVENT_KEY_PRESSED (mkey mp)) sel @ rest) key acc =
   keycode_loop rest key (fold (\<lambda>mp a. a OR modifier_mask mp) sel acc)"
  by (induction sel arbitrary: acc) (simp_all add: mk_event_def table_switch)

lemma single_modifier_loop_presses:
  "set sel \<subseteq> set ghostcat_modifier_mapping \<Longrightarrow>
   single_modifier_loop (map (\<lambda>mp. mk_event GHOSTCAT_MACRO_EVENT_KEY_PRESSED (mkey mp)) sel @ rest) (a, b) =
   single_modifier_loop rest (a + int (length sel), b)"
  by (induction sel arbitrary: a) (simp_all add: mk_event_def table_is_modifier add.assoc)

lemma single_modifier_loop_mono:
  "b \<le> snd (single_modifier_loop xs (a, b))"
proof (induction xs arbitrary: a b)
  case Nil
  then show ?case by simp
next
  case (Cons e xs)
  have "b \<le> snd (single_modifier_loop xs (a', b))" and "b + 1 \<le> snd (single_modifier_loop xs (a', b + 1))" for a'
    using Cons.IH by blast+
  then show ?case by (auto simp: order_trans[OF _ Cons.IH] intro: order_trans[of b "b + 1"])
qed

lemma num_keys_loop_presses:
  "set sel \<subseteq> set ghostcat_modifier_mapping \<Longrightarrow>
   macro_num_keys_loop (map (\<lambda>mp. mk_event t (mkey mp)) sel @ rest) c =
   (if (t = GHOSTCAT_MACRO_EVENT_NONE \<or> t = GHOSTCAT_MACRO_EVENT_INVALID) \<and> sel \<noteq> [] then c
    else macro_num_keys_loop rest c)"
  by (induction sel) (auto simp add: mk_event_def table_is_modifier)

lemma num_keys_loop_zero: "macro_num_keys_loop (replicate n zero_event) c = c"
  by (cases n) (simp_all add: zero_event_def)

lemma length_selected: "length (selected mods tbl) \<le> length tbl"
  by (simp add: selected_def)

lemma selected_subset: "set (selected mods tbl) \<subseteq> set tbl"
  by (auto simp: selected_def)

lemma encode_events:
  fixes key mods :: u32
  defines "S \<equiv> selected mods ghostcat_modifier_mapping"
  shows "\<exists>n. a_macro (b_action (snd (ghostcat_button_macro_new_from_keycode button key mods))) =
     Some \<lparr>m_name = Some ''key'', m_group = None, events =
       map (\<lambda>mp. mk_event GHOSTCAT_MACRO_EVENT_KEY_PRESSED (mkey mp)) S @
       [mk_event GHOSTCAT_MACRO_EVENT_KEY_PRESSED key, mk_event GHOSTCAT_MACRO_EVENT_KEY_RELEASED key] @
       map (\<lambda>mp. mk_event GHOSTCAT_MACRO_EVENT_KEY_RELEASED (mkey mp)) S @
       replicate n zero_event\<rparr> \<and> 2 * length S + 2 + n = MAX_MACRO_EVENTS"
proof -
  let ?P = "map (\<lambda>mp. mk_event GHOSTCAT_MACRO_EVENT_KEY_PRESSED (mkey mp)) S"
  let ?R = "map (\<lambda>mp. mk_event GHOSTCAT_MACRO_EVENT_KEY_RELEASED (mkey mp)) S"
  let ?pk = "mk_event GHOSTCAT_MACRO_EVENT_KEY_PRESSED key"
  let ?rk = "mk_event GHOSTCAT_MACRO_EVENT_KEY_RELEASED key"
  define p where "p = length S"
  have p8: "p \<le> 8"
    using length_selected[of mods ghostcat_modifier_mapping]
    by (simp add: p_def S_def ghostcat_modifier_mapping_def)
  define n where "n = MAX_MACRO_EVENTS - (2 * p + 2)"
  have n: "2 * p + 2 + n = MAX_MACRO_EVENTS" using p8 by (simp add: n_def MAX_MACRO_EVENTS_def)
  have tl0: "MAX_MACRO_EVENTS - p = Suc (Suc (p + n))" using n by simp
  let ?m0 = "ghostcat_button_macro_new ''key''"
  have len0: "length (events ?m0) = MAX_MACRO_EVENTS" by (simp add: ghostcat_button_macro_new_def)
  have tbl: "0 + length ghostcat_modifier_mapping \<le> MAX_MACRO_EVENTS"
    by (simp add: ghostcat_modifier_mapping_def MAX_MACRO_EVENTS_def)
  let ?m1 = "?m0\<lparr>events := ?P @ zero_event # zero_event # replicate (p + n) zero_event\<rparr>"
  have s1: "set_modifier_events GHOSTCAT_MACRO_EVENT_KEY_PRESSED mods ghostcat_modifier_mapping (?m0, 0)
            = (?m1, p)"
    using set_modifier_events_char[OF disjI1[OF refl] tbl len0, of mods] tl0
    by (simp add: S_def[symmetric] p_def[symmetric] ghostcat_button_macro_new_def)
  have pm: "p < MAX_MACRO_EVENTS" "Suc p < MAX_MACRO_EVENTS" using n by simp_all
  let ?m2 = "?m0\<lparr>events := ?P @ ?pk # zero_event # replicate (p + n) zero_event\<rparr>"
  have s2: "snd (ghostcat_button_macro_set_event ?m1 p GHOSTCAT_MACRO_EVENT_KEY_PRESSED key) = ?m2"
    using set_event_key[OF pm(1) disjI1[OF refl]] by (simp add: list_update_append p_def)
  let ?m3 = "?m0\<lparr>events := ?P @ ?pk # ?rk # replicate (p + n) zero_event\<rparr>"
  have s3: "snd (ghostcat_button_macro_set_event ?m2 (Suc p) GHOSTCAT_MACRO_EVENT_KEY_RELEASED key) = ?m3"
    using set_event_key[OF pm(2) disjI2[OF refl]] by (simp add: list_update_append p_def)
  have len3: "length (events ?m3) = MAX_MACRO_EVENTS" using n by (simp add: p_def)
  have tbl3: "Suc (Suc p) + length ghostcat_modifier_mapping \<le> MAX_MACRO_EVENTS"
    using p8 by (simp add: ghostcat_modifier_mapping_def MAX_MACRO_EVENTS_def)
  let ?m4 = "?m0\<lparr>events := ?P @ [?pk, ?rk] @ ?R @ replicate n zero_event\<rparr>"
  have s4: "set_modifier_events GHOSTCAT_MACRO_EVENT_KEY_RELEASED mods ghostcat_modifier_mapping (?m3, Suc (Suc p))
            = (?m4, Suc (Suc p) + p)"
    using set_modifier_events_char[OF disjI2[OF refl] tbl3 len3, of mods]
    by (simp add: S_def[symmetric] p_def[symmetric])
  have "snd (ghostcat_button_macro_new_from_keycode button key mods) = ghostcat_button_copy_macro button ?m4"
    by (simp add: ghostcat_button_macro_new_from_keycode_def Let_def s1 s2 s3 s4)
  then show ?thesis using n
    by (intro exI[of _ n]) (simp add: ghostcat_button_copy_macro_def ghostcat_button_macro_new_def p_def)
qed

lemma and_single_bit:
  fixes x :: u32
  shows "(if x AND push_bit j 1 \<noteq> 0 then a OR push_bit j 1 else a) = a OR (x AND push_bit j 1)"
proof (cases "x AND push_bit j 1 = 0")
  case True
  then show ?thesis by simp
next
  case False
  then have "bit x j" by (simp add: bit_iff_and_push_bit_not_eq_0)
  then have "x AND push_bit j 1 = push_bit j 1"
    by (intro bit_eqI) (auto simp: bit_and_iff bit_push_bit_iff bit_1_iff bit_exp_iff)
  then show ?thesis using False by simp
qed

lemma fold_filter_if:
  "fold f (filter P xs) a = fold (\<lambda>x a. if P x then f x a else a) xs a"
  by (induction xs arbitrary: a) simp_all

lemma fold_selected:
  fixes mods :: u32
  shows "fold (\<lambda>mp a. a OR modifier_mask mp) (selected mods ghostcat_modifier_mapping) 0 = mods AND 255"
proof -
  have "fold (\<lambda>mp a. a OR modifier_mask mp) (selected mods ghostcat_modifier_mapping) 0
        = fold (\<lambda>mp a. if mods AND modifier_mask mp \<noteq> 0 then a OR modifier_mask mp else a)
            ghostcat_modifier_mapping 0"
    unfolding selected_def by (rule fold_filter_if)
  also have "\<dots> = mods AND 255"
    unfolding ghostcat_modifier_mapping_def modifier_defs
    by (simp only: fold_simps ghostcat_modifier_mapping_t.select_convs and_single_bit id_apply comp_apply or.left_neutral)
       (simp flip: bit.conj_disj_distrib)
  finally show ?thesis .
qed

subsection \<open>Round trip\<close>

text \<open>
  C1. For every key that is not one of the eight modifier keys and every modifier mask
  over the eight canonical modifiers (no bit above bit 7), encoding the pair with
  \<^verbatim>\<open>ghostcat_button_macro_new_from_keycode\<close> and decoding the button's action with
  \<^verbatim>\<open>ghostcat_action_keycode_from_macro\<close> returns 1 and writes exactly the original
  key and modifier mask.
\<close>

theorem keycode_macro_roundtrip:
  assumes "\<not> ghostcat_key_is_modifier key" and "modifiers AND 255 = modifiers"
  shows "ghostcat_action_keycode_from_macro
           (b_action (snd (ghostcat_button_macro_new_from_keycode button key modifiers)))
         = (1, Some (key, modifiers))"
proof -
  define S where "S = selected modifiers ghostcat_modifier_mapping"
  let ?P = "map (\<lambda>mp. mk_event GHOSTCAT_MACRO_EVENT_KEY_PRESSED (mkey mp)) S"
  let ?R = "map (\<lambda>mp. mk_event GHOSTCAT_MACRO_EVENT_KEY_RELEASED (mkey mp)) S"
  let ?pk = "mk_event GHOSTCAT_MACRO_EVENT_KEY_PRESSED key"
  let ?rk = "mk_event GHOSTCAT_MACRO_EVENT_KEY_RELEASED key"
  let ?b = "snd (ghostcat_button_macro_new_from_keycode button key modifiers)"
  obtain n where mac: "a_macro (b_action ?b) = Some \<lparr>m_name = Some ''key'', m_group = None,
       events = ?P @ [?pk, ?rk] @ ?R @ replicate n zero_event\<rparr>"
    and n: "2 * length S + 2 + n = MAX_MACRO_EVENTS"
    using encode_events[of button key modifiers] unfolding S_def by blast
  let ?ev = "?P @ [?pk, ?rk] @ ?R @ replicate n zero_event"
  have ty: "a_type (b_action ?b) = GHOSTCAT_BUTTON_ACTION_TYPE_MACRO"
    by (simp add: ghostcat_button_macro_new_from_keycode_def Let_def ghostcat_button_copy_macro_def
        split: prod.splits)
  have sub: "set S \<subseteq> set ghostcat_modifier_mapping" unfolding S_def by (rule selected_subset)
  have tk: "take MAX_MACRO_EVENTS ?ev = ?ev" using n by simp
  have hd0: "ev_type (hd ?ev) = GHOSTCAT_MACRO_EVENT_KEY_PRESSED"
    by (cases S) (simp_all add: mk_event_def)
  have "single_modifier_loop ?ev (0, 0) =
        single_modifier_loop (?pk # ?rk # ?R @ replicate n zero_event) (int (length S), 0)"
    by (simp add: single_modifier_loop_presses[OF sub])
  also have "\<dots> = single_modifier_loop (?R @ replicate n zero_event) (int (length S), 1)"
    using assms(1) by (simp add: mk_event_def)
  finally have "0 < snd (single_modifier_loop ?ev (0, 0))"
    using single_modifier_loop_mono[of 1 "?R @ replicate n zero_event" "int (length S)"] by simp
  then have single: "\<not> ghostcat_action_is_single_modifier_key
       \<lparr>m_name = Some ''key'', m_group = None, events = ?ev\<rparr>"
    unfolding ghostcat_action_is_single_modifier_key_def by (simp only: tk ghostcat_macro.select_convs split: prod.splits) auto
  have nk: "ghostcat_action_macro_num_keys \<lparr>m_name = Some ''key'', m_group = None, events = ?ev\<rparr> = 1"
    unfolding ghostcat_action_macro_num_keys_def using assms(1)
    by (simp only: tk ghostcat_macro.select_convs)
       (simp add: num_keys_loop_presses[OF sub] num_keys_loop_zero, simp add: mk_event_def)
  have fs: "fold (\<lambda>mp a. a OR modifier_mask mp) S 0 = modifiers"
    unfolding S_def fold_selected using assms(2) .
  have "keycode_loop ?ev KEY_RESERVED 0 =
        keycode_loop ([?pk, ?rk] @ ?R @ replicate n zero_event) KEY_RESERVED
          (fold (\<lambda>mp a. a OR modifier_mask mp) S 0)"
    by (rule keycode_loop_presses[OF sub])
  also have "\<dots> = (1, Some (key, modifiers))"
    using assms(1) by (simp add: fs mk_event_def not_modifier_switch)
  finally have loop: "keycode_loop ?ev KEY_RESERVED 0 = (1, Some (key, modifiers))" .
  show ?thesis
    unfolding ghostcat_action_keycode_from_macro_def mac
    using ty single nk loop hd0 by (simp only: option.case ghostcat_macro.select_convs tk) simp
qed

theorem keycode_macro_roundtrip_witness:
  "\<not> ghostcat_key_is_modifier 30 \<and> (3 :: u32) AND 255 = 3 \<and>
   ghostcat_action_keycode_from_macro
     (b_action (snd (ghostcat_button_macro_new_from_keycode example_button 30 3)))
   = (1, Some (30, 3))"
proof -
  have h1: "\<not> ghostcat_key_is_modifier 30"
    by (simp add: ghostcat_key_is_modifier_def ghostcat_modifier_mapping_def key_defs)
  have h2: "(3 :: u32) AND 255 = 3" by simp
  show ?thesis using h1 h2 keycode_macro_roundtrip [OF h1 h2, of example_button] by simp
qed

subsection \<open>A modifier pressed alone\<close>

text \<open>
  C2. A macro action whose event list is exactly one key-pressed event of a modifier key
  (the next cell of the array is the terminating NONE event: no release, no payload key)
  decodes with return value 1 to that modifier's key code and the modifier mask 0.
\<close>

theorem single_modifier_press_decodes:
  assumes "ghostcat_key_is_modifier k"
    and "a_type action = GHOSTCAT_BUTTON_ACTION_TYPE_MACRO"
    and "a_macro action = Some macro"
    and "events macro = \<lparr>ev_type = GHOSTCAT_MACRO_EVENT_KEY_PRESSED, ev_key = k\<rparr> # e # rest"
    and "ev_type e = GHOSTCAT_MACRO_EVENT_NONE"
  shows "ghostcat_action_keycode_from_macro action = (1, Some (k, 0))"
proof -
  have "single_modifier_loop (take MAX_MACRO_EVENTS (events macro)) (0, 0) = (1, 0)"
    using assms(1,4,5) by (simp add: MAX_MACRO_EVENTS_def)
  then have "ghostcat_action_is_single_modifier_key macro"
    by (simp add: ghostcat_action_is_single_modifier_key_def)
  then show ?thesis
    using assms(2,3,4) by (simp add: ghostcat_action_keycode_from_macro_def)
qed

theorem single_modifier_press_decodes_witness:
  "ghostcat_key_is_modifier KEY_LEFTCTRL \<and>
   ghostcat_action_keycode_from_macro lone_ctrl_action = (1, Some (KEY_LEFTCTRL, 0))"
proof -
  have h1: "ghostcat_key_is_modifier KEY_LEFTCTRL"
    by (simp add: ghostcat_key_is_modifier_def ghostcat_modifier_mapping_def)
  show ?thesis
    using h1 single_modifier_press_decodes [OF h1, of lone_ctrl_action
        "\<lparr>m_name = None, m_group = None,
          events = \<lparr>ev_type = GHOSTCAT_MACRO_EVENT_KEY_PRESSED, ev_key = KEY_LEFTCTRL\<rparr>
                   # zero_event # replicate 254 zero_event\<rparr>"
        zero_event "replicate 254 zero_event"]
    by (simp add: lone_ctrl_action_def zero_event_def)
qed

section \<open>The exclusive status bits of a resolution\<close>

subsection \<open>A disabled resolution\<close>

text \<open>
  C6. Calling \<^verbatim>\<open>ghostcat_resolution_set_active\<close>, \<^verbatim>\<open>ghostcat_resolution_set_default\<close>
  or \<^verbatim>\<open>ghostcat_resolution_set_dpi_shift_target\<close> on a resolution whose
  \<^verbatim>\<open>is_disabled\<close> flag is set returns the Invalid-Value error and changes no state: the
  profile, with all its resolutions, status bits and dirty flags, is returned as it was.
\<close>

theorem status_bit_on_disabled_resolution_rejected:
  assumes "r_is_disabled (resolutions profile ! i)"
  shows "ghostcat_resolution_set_active profile i = (GHOSTCAT_ERROR_VALUE, profile) \<and>
         ghostcat_resolution_set_default profile i = (GHOSTCAT_ERROR_VALUE, profile) \<and>
         ghostcat_resolution_set_dpi_shift_target profile i = (GHOSTCAT_ERROR_VALUE, profile)"
  using assms
  by (simp add: ghostcat_resolution_set_active_def ghostcat_resolution_set_default_def
      ghostcat_resolution_set_dpi_shift_target_def)

theorem status_bit_on_disabled_resolution_rejected_witness:
  "r_is_disabled (resolutions example_profile ! 2) \<and>
   ghostcat_resolution_set_active example_profile 2 = (GHOSTCAT_ERROR_VALUE, example_profile) \<and>
   ghostcat_resolution_set_default example_profile 2 = (GHOSTCAT_ERROR_VALUE, example_profile) \<and>
   ghostcat_resolution_set_dpi_shift_target example_profile 2
     = (GHOSTCAT_ERROR_VALUE, example_profile)"
proof -
  have h: "r_is_disabled (resolutions example_profile ! 2)"
    by (simp add: example_profile_def example_resolution_def)
  show ?thesis using h status_bit_on_disabled_resolution_rejected [OF h] by simp
qed

subsection \<open>A resolution that is not disabled\<close>

lemma filter_upt_single: "i < n \<Longrightarrow> filter (\<lambda>j. j = i) [0..<n] = [i]"
proof (induction n)
  case 0
  then show ?case by simp
next
  case (Suc n)
  show ?case
  proof (cases "i = n")
    case True
    have "filter (\<lambda>j. j = n) [0..<n] = []" by (simp add: filter_empty_conv)
    then show ?thesis using True by simp
  next
    case False
    then have "i < n" using Suc.prems by simp
    then show ?thesis using Suc.IH False by simp
  qed
qed

lemma holders_single:
  assumes "i < length (resolutions profile)"
    and "\<And>j. j < length (resolutions profile) \<Longrightarrow> flag (resolutions profile ! j) = (j = i)"
  shows "holders flag profile = [i]"
proof -
  have "holders flag profile = filter (\<lambda>j. j = i) [0..<length (resolutions profile)]"
    unfolding holders_def by (rule filter_cong) (simp_all add: assms(2))
  then show ?thesis using assms(1) by (simp add: filter_upt_single)
qed

subsection \<open>set_active\<close>

lemma set_active_resolutions:
  assumes "i < length (resolutions profile)" and "\<not> r_is_disabled (resolutions profile ! i)"
  shows "fst (ghostcat_resolution_set_active profile i) = GHOSTCAT_SUCCESS"
    and "length (resolutions (snd (ghostcat_resolution_set_active profile i)))
           = length (resolutions profile)"
    and "j < length (resolutions profile) \<Longrightarrow>
         r_is_active (resolutions (snd (ghostcat_resolution_set_active profile i)) ! j) = (j = i)"
    and "j < length (resolutions profile) \<Longrightarrow> j \<noteq> i \<Longrightarrow>
         r_dirty (resolutions (snd (ghostcat_resolution_set_active profile i)) ! j)
           = r_dirty (resolutions profile ! j)"
    and "r_dirty (resolutions (snd (ghostcat_resolution_set_active profile i)) ! i)"
    and "p_dirty (snd (ghostcat_resolution_set_active profile i))"
  using assms
  by (simp_all add: ghostcat_resolution_set_active_def Let_def nth_list_update)

subsection \<open>set_default\<close>

lemma unset_default_step_length:
  "length (resolutions (unset_default_step i j profile)) = length (resolutions profile)"
  by (simp add: unset_default_step_def Let_def)

lemma unset_default_step_bit:
  assumes "i < length (resolutions profile)" and "j < length (resolutions profile)"
    and "k < length (resolutions profile)"
  shows "r_is_default (resolutions (unset_default_step i j profile) ! k)
         = (r_is_default (resolutions profile ! k) \<and> (k = i \<or> k \<noteq> j))"
  using assms by (auto simp: unset_default_step_def Let_def nth_list_update)

lemma unset_default_loop:
  assumes "i < length (resolutions profile)" and "k < length (resolutions profile)"
    and "\<forall>j \<in> set js. j < length (resolutions profile)"
  shows "length (resolutions (fold (unset_default_step i) js profile)) = length (resolutions profile) \<and>
         r_is_default (resolutions (fold (unset_default_step i) js profile) ! k)
         = (r_is_default (resolutions profile ! k) \<and> (k = i \<or> k \<notin> set js))"
  using assms
proof (induction js arbitrary: profile)
  case Nil
  then show ?case by simp
next
  case (Cons j js)
  let ?p = "unset_default_step i j profile"
  have len: "length (resolutions ?p) = length (resolutions profile)"
    by (rule unset_default_step_length)
  have j: "j < length (resolutions profile)" using Cons.prems(3) by simp
  have ih: "length (resolutions (fold (unset_default_step i) js ?p)) = length (resolutions ?p) \<and>
        r_is_default (resolutions (fold (unset_default_step i) js ?p) ! k)
        = (r_is_default (resolutions ?p ! k) \<and> (k = i \<or> k \<notin> set js))"
    using Cons.IH[of ?p] Cons.prems len by simp
  show ?case
    using ih len unset_default_step_bit[OF Cons.prems(1) j Cons.prems(2)] by auto
qed

lemma set_default_resolutions:
  assumes "i < length (resolutions profile)" and "\<not> r_is_disabled (resolutions profile ! i)"
  shows "fst (ghostcat_resolution_set_default profile i) = GHOSTCAT_SUCCESS"
    and "length (resolutions (snd (ghostcat_resolution_set_default profile i)))
           = length (resolutions profile)"
    and "j < length (resolutions profile) \<Longrightarrow>
         r_is_default (resolutions (snd (ghostcat_resolution_set_default profile i)) ! j) = (j = i)"
proof -
  let ?n = "length (resolutions profile)"
  let ?p = "fold (unset_default_step i) [0..<?n] profile"
  have loop: "length (resolutions ?p) = ?n \<and>
      r_is_default (resolutions ?p ! k) = (r_is_default (resolutions profile ! k) \<and> (k = i \<or> k \<notin> set [0..<?n]))"
    if "k < ?n" for k
    using unset_default_loop[OF assms(1) that, of "[0..<?n]"] by simp
  have len: "length (resolutions ?p) = ?n" using loop[OF assms(1)] by simp
  show "fst (ghostcat_resolution_set_default profile i) = GHOSTCAT_SUCCESS"
    using assms(2) by (simp add: ghostcat_resolution_set_default_def Let_def)
  show "length (resolutions (snd (ghostcat_resolution_set_default profile i))) = ?n"
    using assms(2) len by (simp add: ghostcat_resolution_set_default_def Let_def)
  show "r_is_default (resolutions (snd (ghostcat_resolution_set_default profile i)) ! j) = (j = i)"
    if "j < ?n"
    using assms that loop[OF that] len
    by (auto simp: ghostcat_resolution_set_default_def Let_def nth_list_update)
qed

text \<open>
  The dirty flag that the loop of \<^verbatim>\<open>ghostcat_resolution_set_default\<close> sets is the
  target's: resolution 0 of the example profile is the default; after resolution 1 is made
  the default, resolution 0 has lost the bit and is not dirty, and resolution 1 is dirty.
\<close>

lemma set_default_dirties_target_only:
  "r_is_default (resolutions example_profile ! 0) \<and>
   \<not> r_is_default (resolutions (snd (ghostcat_resolution_set_default example_profile 1)) ! 0) \<and>
   \<not> r_dirty (resolutions (snd (ghostcat_resolution_set_default example_profile 1)) ! 0) \<and>
   r_dirty (resolutions (snd (ghostcat_resolution_set_default example_profile 1)) ! 1)"
  by (simp add: ghostcat_resolution_set_default_def unset_default_step_def example_profile_def
      example_resolution_def Let_def upt_rec)

subsection \<open>set_dpi_shift_target\<close>

lemma unset_dpi_shift_target_step_length:
  "length (resolutions (unset_dpi_shift_target_step i j profile)) = length (resolutions profile)"
  by (simp add: unset_dpi_shift_target_step_def Let_def)

lemma unset_dpi_shift_target_step_bit:
  assumes "j < length (resolutions profile)" and "k < length (resolutions profile)"
  shows "r_is_dpi_shift_target (resolutions (unset_dpi_shift_target_step i j profile) ! k)
         = (r_is_dpi_shift_target (resolutions profile ! k) \<and> (k = i \<or> k \<noteq> j))"
    and "r_dirty (resolutions (unset_dpi_shift_target_step i j profile) ! k)
         = (r_dirty (resolutions profile ! k)
            \<or> (k = j \<and> j \<noteq> i \<and> r_is_dpi_shift_target (resolutions profile ! j)))"
  using assms by (auto simp: unset_dpi_shift_target_step_def Let_def nth_list_update)

lemma unset_dpi_shift_target_loop:
  assumes "k < length (resolutions profile)"
    and "\<forall>j \<in> set js. j < length (resolutions profile)"
  shows "length (resolutions (fold (unset_dpi_shift_target_step i) js profile))
           = length (resolutions profile) \<and>
         r_is_dpi_shift_target (resolutions (fold (unset_dpi_shift_target_step i) js profile) ! k)
           = (r_is_dpi_shift_target (resolutions profile ! k) \<and> (k = i \<or> k \<notin> set js)) \<and>
         r_dirty (resolutions (fold (unset_dpi_shift_target_step i) js profile) ! k)
           = (r_dirty (resolutions profile ! k)
              \<or> (k \<in> set js \<and> k \<noteq> i \<and> r_is_dpi_shift_target (resolutions profile ! k)))"
  using assms
proof (induction js arbitrary: profile)
  case Nil
  then show ?case by simp
next
  case (Cons j js)
  let ?p = "unset_dpi_shift_target_step i j profile"
  have len: "length (resolutions ?p) = length (resolutions profile)"
    by (rule unset_dpi_shift_target_step_length)
  have j: "j < length (resolutions profile)" using Cons.prems(2) by simp
  note ih = Cons.IH[of ?p, unfolded len, OF Cons.prems(1)]
  have ih': "length (resolutions (fold (unset_dpi_shift_target_step i) js ?p))
           = length (resolutions profile) \<and>
         r_is_dpi_shift_target (resolutions (fold (unset_dpi_shift_target_step i) js ?p) ! k)
           = (r_is_dpi_shift_target (resolutions ?p ! k) \<and> (k = i \<or> k \<notin> set js)) \<and>
         r_dirty (resolutions (fold (unset_dpi_shift_target_step i) js ?p) ! k)
           = (r_dirty (resolutions ?p ! k)
              \<or> (k \<in> set js \<and> k \<noteq> i \<and> r_is_dpi_shift_target (resolutions ?p ! k)))"
    using ih Cons.prems(2) by simp
  show ?case
    using ih' unset_dpi_shift_target_step_bit[OF j Cons.prems(1), of i] by auto
qed

lemma set_dpi_shift_target_resolutions:
  assumes "i < length (resolutions profile)" and "\<not> r_is_disabled (resolutions profile ! i)"
  shows "fst (ghostcat_resolution_set_dpi_shift_target profile i) = GHOSTCAT_SUCCESS"
    and "length (resolutions (snd (ghostcat_resolution_set_dpi_shift_target profile i)))
           = length (resolutions profile)"
    and "j < length (resolutions profile) \<Longrightarrow>
         r_is_dpi_shift_target
           (resolutions (snd (ghostcat_resolution_set_dpi_shift_target profile i)) ! j) = (j = i)"
    and "j < length (resolutions profile) \<Longrightarrow> j \<noteq> i \<Longrightarrow>
         r_is_dpi_shift_target (resolutions profile ! j) \<Longrightarrow>
         r_dirty (resolutions (snd (ghostcat_resolution_set_dpi_shift_target profile i)) ! j)"
proof -
  let ?n = "length (resolutions profile)"
  let ?p = "fold (unset_dpi_shift_target_step i) [0..<?n] profile"
  have loop: "length (resolutions ?p) = ?n \<and>
      r_is_dpi_shift_target (resolutions ?p ! k)
        = (r_is_dpi_shift_target (resolutions profile ! k) \<and> (k = i \<or> k \<notin> set [0..<?n])) \<and>
      r_dirty (resolutions ?p ! k)
        = (r_dirty (resolutions profile ! k)
           \<or> (k \<in> set [0..<?n] \<and> k \<noteq> i \<and> r_is_dpi_shift_target (resolutions profile ! k)))"
    if "k < ?n" for k
    using unset_dpi_shift_target_loop[OF that, of "[0..<?n]" i] by simp
  have len: "length (resolutions ?p) = ?n" using loop[OF assms(1)] by simp
  show "fst (ghostcat_resolution_set_dpi_shift_target profile i) = GHOSTCAT_SUCCESS"
    using assms(2) by (simp add: ghostcat_resolution_set_dpi_shift_target_def Let_def)
  show "length (resolutions (snd (ghostcat_resolution_set_dpi_shift_target profile i))) = ?n"
    using assms(2) len by (simp add: ghostcat_resolution_set_dpi_shift_target_def Let_def)
  show "r_is_dpi_shift_target
          (resolutions (snd (ghostcat_resolution_set_dpi_shift_target profile i)) ! j) = (j = i)"
    if "j < ?n"
    using assms that loop[OF that] len
    by (auto simp: ghostcat_resolution_set_dpi_shift_target_def Let_def nth_list_update)
  show "r_dirty (resolutions (snd (ghostcat_resolution_set_dpi_shift_target profile i)) ! j)"
    if "j < ?n" "j \<noteq> i" "r_is_dpi_shift_target (resolutions profile ! j)"
    using assms that loop[OF that(1)] len
    by (auto simp: ghostcat_resolution_set_dpi_shift_target_def Let_def nth_list_update)
qed

text \<open>
  C3, as the code has it. Each of the three setters, called on a resolution that is not
  disabled, returns Success and leaves the bit on the target resolution and on no other
  resolution of the profile, so at most one resolution holds it.
  \<^verbatim>\<open>ghostcat_resolution_set_dpi_shift_target\<close> marks dirty each sibling whose bit it
  clears. \<^verbatim>\<open>ghostcat_resolution_set_active\<close> clears the bit on every resolution without
  looking at it, marks the target and the profile dirty, and leaves the dirty flag of every
  sibling as it was.
\<close>

theorem exclusive_status_bit_setters:
  assumes "i < length (resolutions profile)" and "\<not> r_is_disabled (resolutions profile ! i)"
  shows "fst (ghostcat_resolution_set_active profile i) = GHOSTCAT_SUCCESS \<and>
         holders r_is_active (snd (ghostcat_resolution_set_active profile i)) = [i] \<and>
         fst (ghostcat_resolution_set_default profile i) = GHOSTCAT_SUCCESS \<and>
         holders r_is_default (snd (ghostcat_resolution_set_default profile i)) = [i] \<and>
         fst (ghostcat_resolution_set_dpi_shift_target profile i) = GHOSTCAT_SUCCESS \<and>
         holders r_is_dpi_shift_target
           (snd (ghostcat_resolution_set_dpi_shift_target profile i)) = [i] \<and>
         (\<forall>j < length (resolutions profile).
            j \<noteq> i \<and> r_is_dpi_shift_target (resolutions profile ! j) \<longrightarrow>
            r_dirty (resolutions (snd (ghostcat_resolution_set_dpi_shift_target profile i)) ! j)) \<and>
         (\<forall>j < length (resolutions profile). j \<noteq> i \<longrightarrow>
            r_dirty (resolutions (snd (ghostcat_resolution_set_active profile i)) ! j)
              = r_dirty (resolutions profile ! j)) \<and>
         r_dirty (resolutions (snd (ghostcat_resolution_set_active profile i)) ! i) \<and>
         p_dirty (snd (ghostcat_resolution_set_active profile i))"
proof -
  note a = set_active_resolutions[OF assms]
  note d = set_default_resolutions[OF assms]
  note s = set_dpi_shift_target_resolutions[OF assms]
  have "holders r_is_active (snd (ghostcat_resolution_set_active profile i)) = [i]"
    by (rule holders_single) (simp_all add: a(2) a(3) assms(1))
  moreover have "holders r_is_default (snd (ghostcat_resolution_set_default profile i)) = [i]"
    by (rule holders_single) (simp_all add: d(2) d(3) assms(1))
  moreover have "holders r_is_dpi_shift_target
      (snd (ghostcat_resolution_set_dpi_shift_target profile i)) = [i]"
    by (rule holders_single) (simp_all add: s(2) s(3) assms(1))
  ultimately show ?thesis
    using a(1) a(4) a(5) a(6) d(1) s(1) s(4) by simp
qed

theorem exclusive_status_bit_setters_witness:
  "1 < length (resolutions example_profile) \<and>
   \<not> r_is_disabled (resolutions example_profile ! 1) \<and>
   holders r_is_active (snd (ghostcat_resolution_set_active example_profile 1)) = [1] \<and>
   holders r_is_default (snd (ghostcat_resolution_set_default example_profile 1)) = [1] \<and>
   holders r_is_dpi_shift_target
     (snd (ghostcat_resolution_set_dpi_shift_target example_profile 1)) = [1] \<and>
   r_dirty (resolutions (snd (ghostcat_resolution_set_dpi_shift_target example_profile 1)) ! 0)"
proof -
  have h1: "1 < length (resolutions example_profile)" by (simp add: example_profile_def)
  have h2: "\<not> r_is_disabled (resolutions example_profile ! 1)"
    by (simp add: example_profile_def example_resolution_def)
  have h3: "r_is_dpi_shift_target (resolutions example_profile ! 0)"
    by (simp add: example_profile_def example_resolution_def)
  have h4: "0 < length (resolutions example_profile)" by (simp add: example_profile_def)
  show ?thesis
    using h1 h2 h3 h4 exclusive_status_bit_setters [OF h1 h2] by auto
qed

text \<open>
  The claim as stated fails for \<^verbatim>\<open>ghostcat_resolution_set_active\<close>: resolution 0 of
  the example profile is active; after resolution 1 is made active, resolution 0 has lost the
  bit and is not dirty.
\<close>

theorem exclusive_status_bit_setters_counterexample:
  "\<not> r_is_disabled (resolutions example_profile ! 1) \<and>
   r_is_active (resolutions example_profile ! 0) \<and>
   fst (ghostcat_resolution_set_active example_profile 1) = GHOSTCAT_SUCCESS \<and>
   \<not> r_is_active (resolutions (snd (ghostcat_resolution_set_active example_profile 1)) ! 0) \<and>
   \<not> r_dirty (resolutions (snd (ghostcat_resolution_set_active example_profile 1)) ! 0)"
  by (simp add: ghostcat_resolution_set_active_def example_profile_def example_resolution_def)

section \<open>Profiles\<close>

subsection \<open>Disabling a profile\<close>



lemma list_ex_nth: "j < length xs \<Longrightarrow> P (xs ! j) \<Longrightarrow> list_ex P xs"
  unfolding list_ex_iff using nth_mem by blast

text \<open>The setters of a profile keep an active profile that is enabled.\<close>

lemma set_enabled_keeps_active_profile_enabled:
  assumes "i < length (profiles device)" and "active_profile_enabled device"
    and "ghostcat_profile_set_enabled (profiles device ! i) enabled = Some (rc, profile')"
  shows "active_profile_enabled (device\<lparr>profiles := (profiles device)[i := profile']\<rparr>)"
proof -
  obtain j where j: "j < length (profiles device)" "p_is_active (profiles device ! j)"
      "is_enabled (profiles device ! j)"
    using assms(2) by (auto simp: active_profile_enabled_def list_ex_iff in_set_conv_nth)
  have "p_is_active ((profiles device)[i := profile'] ! j) \<and>
        is_enabled ((profiles device)[i := profile'] ! j)"
  proof (cases "j = i")
    case False
    then show ?thesis using j by simp
  next
    case True
    then show ?thesis using j assms(1,3)
      by (auto simp: ghostcat_profile_set_enabled_def split: option.splits if_splits)
  qed
  then show ?thesis using j(1) unfolding active_profile_enabled_def
    by (simp add: list_ex_nth[of j])
qed

lemma set_active_keeps_active_profile_enabled:
  assumes "i < length (profiles device)" and "active_profile_enabled device"
  shows "active_profile_enabled (snd (ghostcat_profile_set_active device i))"
proof (cases "\<not> is_enabled (profiles device ! i) \<or> num_profiles device = 1")
  case True
  then show ?thesis using assms(2) by (auto simp: ghostcat_profile_set_active_def)
next
  case False
  let ?ps = "map (\<lambda>p. if p_is_active p
                        then p\<lparr>p_is_active := False, is_active_dirty := True, p_dirty := True\<rparr>
                        else p) (profiles device)"
  let ?ps' = "?ps[i := (?ps ! i)\<lparr>p_is_active := True, is_active_dirty := True, p_dirty := True\<rparr>]"
  have "p_is_active (?ps' ! i) \<and> is_enabled (?ps' ! i)"
    using False assms(1) by simp
  moreover have "i < length ?ps'" using assms(1) by simp
  ultimately have "list_ex (\<lambda>profile. p_is_active profile \<and> is_enabled profile) ?ps'"
    by (rule list_ex_nth[rotated])
  then show ?thesis using False
    by (simp add: ghostcat_profile_set_active_def active_profile_enabled_def Let_def)
qed




subsection \<open>Making a profile the active one\<close>

text \<open>
  C10. On a device with exactly one profile, \<^verbatim>\<open>ghostcat_profile_set_active\<close> on that
  profile, which is enabled, returns Success and changes nothing: the device is returned as
  it was, so \<^verbatim>\<open>is_active\<close>, \<^verbatim>\<open>is_active_dirty\<close> and \<^verbatim>\<open>dirty\<close> keep their values.
\<close>

theorem set_active_single_profile_unchanged:
  assumes "num_profiles device = 1" and "is_enabled (profiles device ! i)"
  shows "ghostcat_profile_set_active device i = (GHOSTCAT_SUCCESS, device)"
  using assms by (simp add: ghostcat_profile_set_active_def)

theorem set_active_single_profile_unchanged_witness:
  "num_profiles single_profile_device = 1 \<and> is_enabled (profiles single_profile_device ! 0) \<and>
   ghostcat_profile_set_active single_profile_device 0 = (GHOSTCAT_SUCCESS, single_profile_device)"
proof -
  have h1: "num_profiles single_profile_device = 1" by (simp add: single_profile_device_def)
  have h2: "is_enabled (profiles single_profile_device ! 0)"
    by (simp add: single_profile_device_def example_profile_def)
  show ?thesis using h1 h2 set_active_single_profile_unchanged [OF h1 h2] by simp
qed

section \<open>Commit\<close>

lemma clear_dirty_flags:
  "is_active_dirty (clear_dirty profile) = is_active_dirty profile"
  "p_is_active (clear_dirty profile) = p_is_active profile"
  "p_index (clear_dirty profile) = p_index profile"
  by (simp_all add: clear_dirty_def)

lemma profile_clean_committed: "profile_clean (committed profile)"
  by (simp add: profile_clean_def committed_def clear_dirty_def list_all_iff)

lemma commit_profile_success:
  assumes k: "k < length (profiles device)"
    and ok: "is_active_dirty (profiles device ! k) \<and> p_is_active (profiles device ! k) \<longrightarrow>
      (\<exists>callback. set_active_profile drv = Some callback \<and>
         (\<forall>d. fst (callback d (p_index (profiles device ! k))) = 0 \<and>
              profiles (snd (callback d (p_index (profiles device ! k)))) = profiles d))"
  shows "\<exists>device'. commit_profile drv k device = (None, device') \<and>
           profiles device' = (profiles device)[k := committed (profiles device ! k)]"
proof (cases "is_active_dirty (profiles device ! k) \<and> p_is_active (profiles device ! k)")
  case False
  then show ?thesis using k
    by (auto simp: commit_profile_def Let_def clear_dirty_flags committed_def)
next
  case True
  then obtain callback where cb: "set_active_profile drv = Some callback"
    and eff: "\<And>d. fst (callback d (p_index (profiles device ! k))) = 0"
      "\<And>d. profiles (snd (callback d (p_index (profiles device ! k)))) = profiles d"
    using ok by blast
  let ?d = "device\<lparr>profiles := (profiles device)[k := clear_dirty (profiles device ! k)]\<rparr>"
  obtain rc d' where run: "callback ?d (p_index (profiles device ! k)) = (rc, d')"
    by (cases "callback ?d (p_index (profiles device ! k))")
  have rc: "rc = 0" using eff(1)[of ?d] run by simp
  have ps: "profiles d' = (profiles device)[k := clear_dirty (profiles device ! k)]"
    using eff(2)[of ?d] run by simp
  show ?thesis using True k cb run rc ps
    by (simp add: commit_profile_def Let_def clear_dirty_flags committed_def)
qed

lemma commit_profiles_success:
  assumes "distinct ks" and "\<forall>k \<in> set ks. k < length (profiles device)"
    and "\<forall>k \<in> set ks.
      is_active_dirty (profiles device ! k) \<and> p_is_active (profiles device ! k) \<longrightarrow>
      (\<exists>callback. set_active_profile drv = Some callback \<and>
         (\<forall>d. fst (callback d (p_index (profiles device ! k))) = 0 \<and>
              profiles (snd (callback d (p_index (profiles device ! k)))) = profiles d))"
  shows "\<exists>device'. commit_profiles drv ks device = (GHOSTCAT_SUCCESS, device') \<and>
           length (profiles device') = length (profiles device) \<and>
           (\<forall>j < length (profiles device).
              profiles device' ! j
                = (if j \<in> set ks then committed (profiles device ! j) else profiles device ! j))"
  using assms
proof (induction ks arbitrary: device)
  case Nil
  then show ?case by simp
next
  case (Cons k ks)
  have k: "k < length (profiles device)" using Cons.prems(2) by simp
  obtain d1 where step: "commit_profile drv k device = (None, d1)"
    and ps1: "profiles d1 = (profiles device)[k := committed (profiles device ! k)]"
    using commit_profile_success[OF k, of drv] Cons.prems(3) by auto
  have notin: "k \<notin> set ks" and dist: "distinct ks" using Cons.prems(1) by simp_all
  have same: "profiles d1 ! j = profiles device ! j" if "j \<in> set ks" for j
  proof -
    have "j \<noteq> k" using that notin by auto
    then show ?thesis using ps1 by simp
  qed
  have len1: "length (profiles d1) = length (profiles device)" using ps1 by simp
  have b1: "\<forall>j \<in> set ks. j < length (profiles d1)" using Cons.prems(2) len1 by simp
  have b2: "\<forall>j \<in> set ks.
      is_active_dirty (profiles d1 ! j) \<and> p_is_active (profiles d1 ! j) \<longrightarrow>
      (\<exists>callback. set_active_profile drv = Some callback \<and>
         (\<forall>d. fst (callback d (p_index (profiles d1 ! j))) = 0 \<and>
              profiles (snd (callback d (p_index (profiles d1 ! j)))) = profiles d))"
    using Cons.prems(3) same by simp
  obtain d2 where run: "commit_profiles drv ks d1 = (GHOSTCAT_SUCCESS, d2)"
    and len2: "length (profiles d2) = length (profiles d1)"
    and nth2: "\<forall>j < length (profiles d1).
              profiles d2 ! j = (if j \<in> set ks then committed (profiles d1 ! j) else profiles d1 ! j)"
    using Cons.IH[OF dist b1 b2] by blast
  have "commit_profiles drv (k # ks) device = (GHOSTCAT_SUCCESS, d2)"
    using step run by simp
  moreover have "length (profiles d2) = length (profiles device)" using len2 len1 by simp
  moreover have "\<forall>j < length (profiles device).
      profiles d2 ! j = (if j \<in> set (k # ks) then committed (profiles device ! j)
                         else profiles device ! j)"
    using nth2 len1 ps1 notin same by (auto simp: nth_list_update)
  ultimately show ?case by blast
qed

text \<open>
  C4, as the code has it. Let the driver's commit callback return \<open>rc\<close> and leave the device
  \<open>device1\<close>. If the callback succeeds and, for every profile of \<open>device1\<close> that is active
  with \<^verbatim>\<open>is_active_dirty\<close> set, the driver's \<^verbatim>\<open>set_active_profile\<close> callback exists,
  succeeds and leaves the profiles as they are, \<^verbatim>\<open>ghostcat_device_commit\<close> returns
  Success, and the profiles afterwards are those of \<open>device1\<close> with every dirty flag cleared:
  \<^verbatim>\<open>dirty\<close>, \<^verbatim>\<open>rate_dirty\<close>, \<^verbatim>\<open>angle_snapping_dirty\<close>, \<^verbatim>\<open>debounce_dirty\<close> and
  \<^verbatim>\<open>is_active_dirty\<close> of each profile and \<^verbatim>\<open>dirty\<close> of every button, led and
  resolution. If the commit callback fails, \<^verbatim>\<open>ghostcat_device_commit\<close> returns the Device
  error and writes no flag: the device is as the callback left it.
\<close>

theorem device_commit_outcomes:
  assumes "commit drv = Some commit_callback" and "commit_callback device = (rc, device1)"
  shows "(rc \<noteq> 0 \<longrightarrow>
            ghostcat_device_commit (Some drv) device = Some (GHOSTCAT_ERROR_DEVICE, device1)) \<and>
         (rc = 0 \<and>
          (\<forall>k < length (profiles device1).
             is_active_dirty (profiles device1 ! k) \<and> p_is_active (profiles device1 ! k) \<longrightarrow>
             (\<exists>callback. set_active_profile drv = Some callback \<and>
                (\<forall>d. fst (callback d (p_index (profiles device1 ! k))) = 0 \<and>
                     profiles (snd (callback d (p_index (profiles device1 ! k)))) = profiles d)))
          \<longrightarrow>
            (\<exists>device'. ghostcat_device_commit (Some drv) device = Some (GHOSTCAT_SUCCESS, device') \<and>
               profiles device' = map committed (profiles device1) \<and>
               list_all profile_clean (profiles device')))"
proof (intro conjI impI)
  assume "rc \<noteq> 0"
  then show "ghostcat_device_commit (Some drv) device = Some (GHOSTCAT_ERROR_DEVICE, device1)"
    using assms by (simp add: ghostcat_device_commit_def)
next
  assume a: "rc = 0 \<and>
          (\<forall>k < length (profiles device1).
             is_active_dirty (profiles device1 ! k) \<and> p_is_active (profiles device1 ! k) \<longrightarrow>
             (\<exists>callback. set_active_profile drv = Some callback \<and>
                (\<forall>d. fst (callback d (p_index (profiles device1 ! k))) = 0 \<and>
                     profiles (snd (callback d (p_index (profiles device1 ! k)))) = profiles d)))"
  let ?n = "length (profiles device1)"
  obtain device' where run: "commit_profiles drv [0..<?n] device1 = (GHOSTCAT_SUCCESS, device')"
    and len: "length (profiles device') = ?n"
    and nth: "\<forall>j < ?n. profiles device' ! j
                = (if j \<in> set [0..<?n] then committed (profiles device1 ! j) else profiles device1 ! j)"
    using commit_profiles_success[of "[0..<?n]" device1 drv] a by auto
  have ps: "profiles device' = map committed (profiles device1)"
    by (rule nth_equalityI) (simp_all add: len nth)
  have "ghostcat_device_commit (Some drv) device = Some (GHOSTCAT_SUCCESS, device')"
    using assms a run by (simp add: ghostcat_device_commit_def)
  moreover have "list_all profile_clean (profiles device')"
    unfolding ps by (simp add: list_all_iff profile_clean_committed)
  ultimately show "\<exists>device'. ghostcat_device_commit (Some drv) device = Some (GHOSTCAT_SUCCESS, device') \<and>
               profiles device' = map committed (profiles device1) \<and>
               list_all profile_clean (profiles device')"
    using ps by blast
qed

text \<open>
  On the example device the commit callback makes profile 0 the active one again, so the
  loop calls \<^verbatim>\<open>set_active_profile\<close> for profile 0, and the flags set before the commit
  are clear afterwards.
\<close>

theorem device_commit_outcomes_witness:
  "commit example_driver = Some (the (commit example_driver)) \<and>
   fst (the (commit example_driver) switched_device) = 0 \<and>
   \<not> p_is_active (profiles switched_device ! 0) \<and>
   p_is_active (profiles (snd (the (commit example_driver) switched_device)) ! 0) \<and>
   is_active_dirty (profiles (snd (the (commit example_driver) switched_device)) ! 0) \<and>
   p_dirty (profiles switched_device ! 0) \<and> rate_dirty (profiles switched_device ! 0) \<and>
   r_dirty (resolutions (profiles switched_device ! 0) ! 0) \<and>
   p_dirty (profiles switched_device ! 1) \<and>
   (\<exists>device'. ghostcat_device_commit (Some example_driver) switched_device
        = Some (GHOSTCAT_SUCCESS, device') \<and>
      profiles device' = map committed (profiles (snd (the (commit example_driver) switched_device))) \<and>
      list_all profile_clean (profiles device')) \<and>
   commit failing_driver = Some (the (commit failing_driver)) \<and>
   the (commit failing_driver) switched_device = (- 5, switched_device) \<and>
   ghostcat_device_commit (Some failing_driver) switched_device
     = Some (GHOSTCAT_ERROR_DEVICE, switched_device)"
proof -
  have h1: "commit example_driver = Some (the (commit example_driver))"
    by (simp add: example_driver_def)
  have h2: "the (commit example_driver) switched_device
            = (0, snd (the (commit example_driver) switched_device))"
    by (simp add: example_driver_def)
  have h3: "\<forall>k < length (profiles (snd (the (commit example_driver) switched_device))).
      is_active_dirty (profiles (snd (the (commit example_driver) switched_device)) ! k) \<and>
      p_is_active (profiles (snd (the (commit example_driver) switched_device)) ! k) \<longrightarrow>
      (\<exists>callback. set_active_profile example_driver = Some callback \<and>
         (\<forall>d. fst (callback d (p_index (profiles (snd (the (commit example_driver) switched_device)) ! k))) = 0 \<and>
              profiles (snd (callback d (p_index (profiles (snd (the (commit example_driver) switched_device)) ! k)))) = profiles d))"
    by (simp add: example_driver_def)
  have h4: "commit failing_driver = Some (the (commit failing_driver))"
    by (simp add: failing_driver_def)
  have h5: "the (commit failing_driver) switched_device = (- 5, switched_device)"
    by (simp add: failing_driver_def)
  have flags: "\<not> p_is_active (profiles switched_device ! 0) \<and>
   p_is_active (profiles (snd (the (commit example_driver) switched_device)) ! 0) \<and>
   is_active_dirty (profiles (snd (the (commit example_driver) switched_device)) ! 0) \<and>
   p_dirty (profiles switched_device ! 0) \<and> rate_dirty (profiles switched_device ! 0) \<and>
   r_dirty (resolutions (profiles switched_device ! 0) ! 0) \<and>
   p_dirty (profiles switched_device ! 1)"
    by (simp add: switched_device_def example_driver_def example_profile_def)
  have h0: "fst (the (commit example_driver) switched_device) = 0"
    by (simp add: example_driver_def)
  have e1: "\<exists>device'. ghostcat_device_commit (Some example_driver) switched_device
        = Some (GHOSTCAT_SUCCESS, device') \<and>
      profiles device' = map committed (profiles (snd (the (commit example_driver) switched_device))) \<and>
      list_all profile_clean (profiles device')"
    using device_commit_outcomes [OF h1 h2] h3 by blast
  have e2: "ghostcat_device_commit (Some failing_driver) switched_device
     = Some (GHOSTCAT_ERROR_DEVICE, switched_device)"
    using device_commit_outcomes [OF h4 h5] by simp
  show ?thesis
    using h1 h0 flags e1 h4 h5 e2 by blast
qed

text \<open>
  The claim as stated fails when the commit callback succeeds and \<^verbatim>\<open>set_active_profile\<close>
  does not: the result is the Device error and profile 1 keeps \<^verbatim>\<open>is_active_dirty\<close>.
\<close>

theorem device_commit_outcomes_counterexample:
  "fst (the (commit refusing_driver) switched_device) = 0 \<and>
   fst (the (ghostcat_device_commit (Some refusing_driver) switched_device))
     = GHOSTCAT_ERROR_DEVICE \<and>
   is_active_dirty
     (profiles (snd (the (ghostcat_device_commit (Some refusing_driver) switched_device))) ! 1)"
  by (simp add: switched_device_def refusing_driver_def ghostcat_device_commit_def
      commit_profile_def example_profile_def clear_dirty_def Let_def upt_rec)

section \<open>The daemon\<close>

subsection \<open>Report rate\<close>

text \<open>
  C5. A report rate written on the bus property \<^verbatim>\<open>ReportRate\<close> is clamped into
  [125, 8000] before it is stored: a value below 125 becomes 125, a value above 8000 becomes
  8000, any other value is kept; and the setter returns 0, that is, the write is accepted.
\<close>

theorem report_rate_write_clamped:
  "fst (ghostcatd_profile_set_report_rate bus (Read_ok rate) profile) = 0 \<and>
   hz (lib_profile (fst (snd (ghostcatd_profile_set_report_rate bus (Read_ok rate) profile))))
     = (if rate < 125 then 125 else if rate > 8000 then 8000 else rate) \<and>
   125 \<le> hz (lib_profile (fst (snd (ghostcatd_profile_set_report_rate bus (Read_ok rate) profile)))) \<and>
   hz (lib_profile (fst (snd (ghostcatd_profile_set_report_rate bus (Read_ok rate) profile)))) \<le> 8000"
  by (auto simp: ghostcatd_profile_set_report_rate_def ghostcat_profile_set_report_rate_def
      Let_def not_less)

subsection \<open>Polling the active resolution\<close>












subsection \<open>The command line\<close>

text \<open>
  C9, as the code has it. When the first command-line argument is none of
  \<^verbatim>\<open>--version\<close>, \<^verbatim>\<open>--quiet\<close>, \<^verbatim>\<open>--verbose\<close>, \<^verbatim>\<open>--verbose=raw\<close> and
  \<^verbatim>\<open>--verbose=debug\<close>, the daemon prints the usage message on standard error first and
  the process exits with status \<^verbatim>\<open>EXIT_FAILURE\<close>, which is 1.
\<close>

theorem unknown_argument_exits_with_failure:
  assumes "1 < length argv"
    and "argv ! 1 \<noteq> ''--version''" and "argv ! 1 \<noteq> ''--quiet''" and "argv ! 1 \<noteq> ''--verbose''"
    and "argv ! 1 \<noteq> ''--verbose=raw''" and "argv ! 1 \<noteq> ''--verbose=debug''"
  shows "hd (printed (ghostcatd_main argv env))
           = Stderr (''Usage: '' @ program_invocation_short_name env
                     @ '' [--version | --quiet | --verbose[=debug]]'' @ [CHR 0x0A]) \<and>
         exit_status (ghostcatd_main argv env) = EXIT_FAILURE"
  using assms
  by (simp add: ghostcatd_main_def main_exit_def printed_def exit_status_def EINVAL_def EEXIST_def
      split: prod.splits)

theorem unknown_argument_exits_with_failure_witness:
  "1 < length [''ghostcatd'', ''--bogus''] \<and>
   hd (printed (ghostcatd_main [''ghostcatd'', ''--bogus''] example_env))
     = Stderr (''Usage: '' @ program_invocation_short_name example_env
               @ '' [--version | --quiet | --verbose[=debug]]'' @ [CHR 0x0A]) \<and>
   exit_status (ghostcatd_main [''ghostcatd'', ''--bogus''] example_env) = EXIT_FAILURE"
  using unknown_argument_exits_with_failure [of "[''ghostcatd'', ''--bogus'']" example_env]
  by simp

text \<open>
  The exit status for an unknown argument is 1, not 22: \<^verbatim>\<open>-EINVAL\<close> is only the value
  of \<^verbatim>\<open>r\<close> with which \<^verbatim>\<open>main\<close> reaches its exit label.
\<close>

theorem unknown_argument_exit_status_counterexample:
  "exit_status (ghostcatd_main [''ghostcatd'', ''--bogus''] example_env) = 1 \<and>
   exit_status (ghostcatd_main [''ghostcatd'', ''--bogus''] example_env) \<noteq> 22"
  by (simp add: ghostcatd_main_def main_exit_def exit_status_def EINVAL_def EEXIST_def
      EXIT_FAILURE_def example_env_def)

end
